theory Spec2Isabelle
  imports Main "HOL-Library.Log_Nat"
begin

section \<open>JavaScript numbers\<close>

text \<open>
  \<^verbatim>\<open>calculateImpact\<close> of \<^verbatim>\<open>src/backend/server.ts\<close> computes on JavaScript
  numbers, which are IEEE 754 binary64 values. A number is NaN, one of the two
  infinities, the negative zero, or a finite value held as the rational it denotes
  (\<open>Fin 0\<close> is the positive zero). Arithmetic computes the exact rational result and
  rounds it to the nearest binary64 value, ties to even, as \<^verbatim>\<open>*\<close> and \<^verbatim>\<open>/\<close> do.
  Every binary64 value is a \<open>number\<close>; a statement about every \<open>Fin q\<close> covers the
  finite ones among them.
\<close>

datatype number = NaN | PosInf | NegInf | NegZero | Fin rat

text \<open>Rounding a rational to the nearest integer, ties to the even one.\<close>

definition round_half_even :: "rat \<Rightarrow> int" where
  "round_half_even x =
     (let f = \<lfloor>x\<rfloor>; r = x - of_int f
      in if r < 1 / 2 then f else if 1 / 2 < r then f + 1 else if even f then f else f + 1)"

text \<open>
  \<open>floor_log2 a\<close> is the integer \<open>e\<close> with \<open>2 powi e \<le> a < 2 powi (e + 1)\<close>, for \<open>0 < a\<close>.
  The binary exponent of a binary64 value is at least \<open>-1022\<close> (below that the
  values are subnormal and share the spacing of the smallest normal ones).
\<close>

definition floor_log2 :: "rat \<Rightarrow> int" where
  "floor_log2 a = (if 1 \<le> a then bitlen \<lfloor>a\<rfloor> - 1 else - bitlen (\<lceil>1 / a\<rceil> - 1))"

definition exponent :: "rat \<Rightarrow> int" where
  "exponent a = max (- 1022) (floor_log2 a)"

text \<open>
  The magnitude \<open>a \<ge> 0\<close> rounded to a multiple of the spacing \<open>2 powi (e - 52)\<close> of the
  binary64 values of its exponent \<open>e\<close> (53 significant bits).
\<close>

definition round_nearest :: "rat \<Rightarrow> rat" where
  "round_nearest a =
     (if a = 0 then 0
      else let u = 2 powi (exponent a - 52) in of_int (round_half_even (a / u)) * u)"

definition signed :: "bool \<Rightarrow> rat \<Rightarrow> number" where
  "signed s m = (if m = 0 then (if s then NegZero else Fin 0) else Fin (if s then - m else m))"

definition infinity :: "bool \<Rightarrow> number" where
  "infinity s = (if s then NegInf else PosInf)"

text \<open>
  The binary64 value of the real number of sign \<open>s\<close> (\<open>True\<close> is negative) and
  magnitude \<open>a\<close>: a rounded magnitude of \<open>2 ^ 1024\<close> or more is an infinity, and a
  result that rounds to zero keeps the sign.
\<close>

definition overflow_threshold :: rat where
  "overflow_threshold = 2 ^ 1024"

definition to_double :: "bool \<Rightarrow> rat \<Rightarrow> number" where
  "to_double s a =
     (let r = round_nearest a in if overflow_threshold \<le> r then infinity s else signed s r)"

text \<open>A decimal literal of the source, such as \<^verbatim>\<open>0.4\<close>, denotes the nearest binary64 value.\<close>

definition lit :: "rat \<Rightarrow> number" where
  "lit q = to_double (q < 0) \<bar>q\<bar>"

fun is_neg :: "number \<Rightarrow> bool" where
  "is_neg NaN = False"
| "is_neg PosInf = False"
| "is_neg NegInf = True"
| "is_neg NegZero = True"
| "is_neg (Fin q) = (q < 0)"

fun magnitude :: "number \<Rightarrow> rat" where
  "magnitude (Fin q) = \<bar>q\<bar>"
| "magnitude _ = 0"

fun is_inf :: "number \<Rightarrow> bool" where
  "is_inf PosInf = True"
| "is_inf NegInf = True"
| "is_inf _ = False"

fun is_zero :: "number \<Rightarrow> bool" where
  "is_zero NegZero = True"
| "is_zero (Fin q) = (q = 0)"
| "is_zero _ = False"

text \<open>The operator \<^verbatim>\<open>*\<close> on numbers (ECMAScript \<^verbatim>\<open>Number::multiply\<close>).\<close>

definition num_mul :: "number \<Rightarrow> number \<Rightarrow> number" where
  "num_mul x y =
     (if x = NaN \<or> y = NaN then NaN
      else if is_inf x \<or> is_inf y then
        (if is_zero x \<or> is_zero y then NaN else infinity (is_neg x \<noteq> is_neg y))
      else to_double (is_neg x \<noteq> is_neg y) (magnitude x * magnitude y))"

text \<open>The operator \<^verbatim>\<open>/\<close> on numbers (ECMAScript \<^verbatim>\<open>Number::divide\<close>).\<close>

definition num_div :: "number \<Rightarrow> number \<Rightarrow> number" where
  "num_div x y =
     (if x = NaN \<or> y = NaN then NaN
      else if is_inf x then (if is_inf y then NaN else infinity (is_neg x \<noteq> is_neg y))
      else if is_inf y then signed (is_neg x \<noteq> is_neg y) 0
      else if is_zero y then (if is_zero x then NaN else infinity (is_neg x \<noteq> is_neg y))
      else to_double (is_neg x \<noteq> is_neg y) (magnitude x / magnitude y))"

text \<open>
  \<^verbatim>\<open>Math.round\<close>: the integer closest to the argument, the one towards \<open>+\<infinity>\<close> of two
  equally close ones; NaN, the infinities and the zeros are returned as they are,
  and an argument in \<open>[-0.5, 0)\<close> gives the negative zero.
\<close>

fun math_round :: "number \<Rightarrow> number" where
  "math_round (Fin q) = signed (q < 0) \<bar>of_int \<lfloor>q + 1 / 2\<rfloor>\<bar>"
| "math_round x = x"

text \<open>The comparisons \<^verbatim>\<open><=\<close> and \<^verbatim>\<open><\<close> and the strict equality \<^verbatim>\<open>===\<close> on numbers.\<close>

fun is_finite :: "number \<Rightarrow> bool" where
  "is_finite NegZero = True"
| "is_finite (Fin q) = True"
| "is_finite _ = False"

fun val :: "number \<Rightarrow> rat" where
  "val (Fin q) = q"
| "val _ = 0"

definition num_le :: "number \<Rightarrow> number \<Rightarrow> bool" where
  "num_le x y =
     (x \<noteq> NaN \<and> y \<noteq> NaN \<and>
      (x = NegInf \<or> y = PosInf \<or> (is_finite x \<and> is_finite y \<and> val x \<le> val y)))"

definition num_less :: "number \<Rightarrow> number \<Rightarrow> bool" where
  "num_less x y =
     (x \<noteq> NaN \<and> y \<noteq> NaN \<and>
      ((x = NegInf \<and> y \<noteq> NegInf) \<or> (y = PosInf \<and> x \<noteq> PosInf) \<or>
       (is_finite x \<and> is_finite y \<and> val x < val y)))"

definition num_eq :: "number \<Rightarrow> number \<Rightarrow> bool" where
  "num_eq x y = (x \<noteq> NaN \<and> y \<noteq> NaN \<and> (x = y \<or> (is_zero x \<and> is_zero y)))"

text \<open>A number is falsy when it is a zero or NaN.\<close>

definition truthy_number :: "number \<Rightarrow> bool" where
  "truthy_number n = (n \<noteq> NaN \<and> \<not> is_zero n)"

section \<open>Objects and property reads\<close>

text \<open>
  An object literal is the list of its own properties in declaration order. Reading
  a property that is not an own one falls through to \<^verbatim>\<open>Object.prototype\<close>, whose
  members (built-in functions, and \<^verbatim>\<open>Object.prototype\<close> itself under \<^verbatim>\<open>__proto__\<close>)
  are truthy objects with no enumerable own property; every other read gives
  \<^verbatim>\<open>undefined\<close>. Reading a property of \<^verbatim>\<open>undefined\<close>, or listing its keys, raises a
  \<^verbatim>\<open>TypeError\<close>.
\<close>

datatype error = TypeError

datatype 'a property = Undefined | Inherited | Own 'a

type_synonym 'a object = "(string \<times> 'a) list"

definition object_prototype_keys :: "string list" where
  "object_prototype_keys =
     [''constructor'', ''__defineGetter__'', ''__defineSetter__'', ''hasOwnProperty'',
      ''__lookupGetter__'', ''__lookupSetter__'', ''isPrototypeOf'', ''propertyIsEnumerable'',
      ''toString'', ''valueOf'', ''__proto__'', ''toLocaleString'']"

definition get_property :: "'a object \<Rightarrow> string \<Rightarrow> 'a property" where
  "get_property obj k =
     (case map_of obj k of
        Some v \<Rightarrow> Own v
      | None \<Rightarrow> if k \<in> set object_prototype_keys then Inherited else Undefined)"

text \<open>
  \<open>read_property p k\<close> is the read \<^verbatim>\<open>p[k]\<close> where \<open>p\<close> is itself the result of a read.
  A member of \<^verbatim>\<open>Object.prototype\<close> answers with what it inherits from
  \<^verbatim>\<open>Object.prototype\<close> in turn; the properties of its own that a built-in function
  has (\<^verbatim>\<open>length\<close>, \<^verbatim>\<open>name\<close>) are left out, and \<^verbatim>\<open>calculateImpact\<close> reads none of
  them: the one key it reads from such a member is \<^verbatim>\<open>"undefined"\<close>.
\<close>

definition read_property :: "'a object property \<Rightarrow> string \<Rightarrow> error + 'a property" where
  "read_property p k =
     (case p of
        Undefined \<Rightarrow> Inl TypeError
      | Inherited \<Rightarrow> Inr (if k \<in> set object_prototype_keys then Inherited else Undefined)
      | Own obj \<Rightarrow> Inr (get_property obj k))"

text \<open>
  \<^verbatim>\<open>Object.keys\<close>: the enumerable own property names, in declaration order (no key
  of the table is an array index, which would come first).
\<close>

definition object_keys :: "'a object property \<Rightarrow> error + string list" where
  "object_keys p =
     (case p of
        Undefined \<Rightarrow> Inl TypeError
      | Inherited \<Rightarrow> Inr []
      | Own obj \<Rightarrow> Inr (map fst obj))"

text \<open>\<^verbatim>\<open>keys[0]\<close>: \<^verbatim>\<open>undefined\<close> (here \<open>None\<close>) on the empty array.\<close>

definition first_key :: "string list \<Rightarrow> string option" where
  "first_key ks = (case ks of [] \<Rightarrow> None | k # _ \<Rightarrow> Some k)"

text \<open>Used as a property key, \<^verbatim>\<open>undefined\<close> is the string \<^verbatim>\<open>"undefined"\<close>.\<close>

definition to_property_key :: "string option \<Rightarrow> string" where
  "to_property_key k = (case k of None \<Rightarrow> ''undefined'' | Some s \<Rightarrow> s)"

definition truthy_object :: "'a object property \<Rightarrow> bool" where
  "truthy_object p = (p \<noteq> Undefined)"

definition truthy_field :: "number property \<Rightarrow> bool" where
  "truthy_field p = (case p of Undefined \<Rightarrow> False | Inherited \<Rightarrow> True | Own n \<Rightarrow> truthy_number n)"

text \<open>The operand of \<^verbatim>\<open>*\<close> converted to a number: \<^verbatim>\<open>undefined\<close> and functions give NaN.\<close>

definition to_number :: "number property \<Rightarrow> number" where
  "to_number p = (case p of Own n \<Rightarrow> n | _ \<Rightarrow> NaN)"

text \<open>
  \<^verbatim>\<open>a || b\<close>: the left operand when it is truthy, the right one otherwise; the right
  operand is not evaluated (and cannot raise) when the left one is truthy.
\<close>

definition or_else :: "error + number property \<Rightarrow> error + number property \<Rightarrow> error + number property" where
  "or_else a b = (case a of Inl e \<Rightarrow> Inl e | Inr x \<Rightarrow> if truthy_field x then Inr x else b)"

definition bind :: "error + 'a \<Rightarrow> ('a \<Rightarrow> error + 'b) \<Rightarrow> error + 'b" where
  "bind m f = (case m of Inl e \<Rightarrow> Inl e | Inr x \<Rightarrow> f x)"

section \<open>The impact calculator\<close>

text \<open>The table \<^verbatim>\<open>impactMultipliers\<close> of \<^verbatim>\<open>calculateImpact\<close> (server.ts, lines 156-170).\<close>

definition impactMultipliers :: "number object object object" where
  "impactMultipliers =
     [(''transport'',
        [(''biking'', [(''co2_per_mile'', lit (2 / 5)), (''water_per_mile'', lit (1 / 10))]),
         (''walking'', [(''co2_per_mile'', lit (3 / 10)), (''water_per_mile'', lit (1 / 20))]),
         (''public_transport'', [(''co2_per_mile'', lit (1 / 5)), (''water_per_mile'', lit (2 / 25))])]),
      (''energy'',
        [(''solar'', [(''co2_per_kwh'', lit (5 / 2)), (''water_per_kwh'', lit (1 / 2))]),
         (''led_bulbs'', [(''co2_per_hour'', lit (1 / 10)), (''water_per_hour'', lit (1 / 50))])]),
      (''waste'',
        [(''recycling'', [(''co2_per_kg'', lit (9 / 5)), (''water_per_kg'', lit (3 / 10))]),
         (''composting'', [(''co2_per_kg'', lit (21 / 10)), (''water_per_kg'', lit (2 / 5))])])]"

record impact_result =
  co2_saved :: number
  water_conserved :: number

text \<open>
  \<^verbatim>\<open>calculateImpact(category, value, unit)\<close> (server.ts, lines 154-190), for a string
  \<open>category\<close> and a number \<open>value\<close>. The result is \<open>Inl TypeError\<close> where the
  JavaScript would throw.
\<close>

definition calculateImpact :: "string \<Rightarrow> number \<Rightarrow> string \<Rightarrow> error + impact_result" where
  "calculateImpact category value unit =
     (let co2_default = num_mul value (lit (1 / 2));
          water_default = num_mul value (lit (1 / 10));
          categoryData = get_property impactMultipliers category
      in bind
           (if truthy_object categoryData then
              bind (object_keys categoryData) (\<lambda>keys.
                let firstKey = first_key keys
                in bind (read_property categoryData (to_property_key firstKey)) (\<lambda>entry.
                     if truthy_object entry then
                       bind (or_else (or_else (or_else (read_property entry ''co2_per_mile'')
                                                       (read_property entry ''co2_per_kwh''))
                                              (read_property entry ''co2_per_kg''))
                                     (Inr (Own (lit (1 / 2))))) (\<lambda>co2_factor.
                       bind (or_else (or_else (or_else (read_property entry ''water_per_mile'')
                                                       (read_property entry ''water_per_kwh''))
                                              (read_property entry ''water_per_kg''))
                                     (Inr (Own (lit (1 / 10))))) (\<lambda>water_factor.
                         Inr (num_mul value (to_number co2_factor),
                              num_mul value (to_number water_factor))))
                     else Inr (co2_default, water_default)))
            else Inr (co2_default, water_default))
           (\<lambda>(co2, water).
              Inr \<lparr>co2_saved = num_div (math_round (num_mul co2 (lit 100))) (lit 100),
                   water_conserved = num_div (math_round (num_mul water (lit 100))) (lit 100)\<rparr>))"

text \<open>
  The rounding to two decimals as the specification writes it:
  \<^verbatim>\<open>round2(x) = round(x * 100) / 100\<close>.
\<close>

definition round2 :: "number \<Rightarrow> number" where
  "round2 x = num_div (math_round (num_mul x (lit 100))) (lit 100)"

section \<open>The activity-creation endpoint\<close>

text \<open>
  A field of the JSON request body: absent (\<^verbatim>\<open>undefined\<close>), \<^verbatim>\<open>null\<close>, a boolean, a
  number, a string, or an array or object. The zeros, NaN, the empty string,
  \<^verbatim>\<open>null\<close>, \<^verbatim>\<open>undefined\<close> and \<^verbatim>\<open>false\<close> are falsy.
\<close>

datatype json = JUndefined | JNull | JBool bool | JNum number | JStr string | JObject

fun truthy :: "json \<Rightarrow> bool" where
  "truthy JUndefined = False"
| "truthy JNull = False"
| "truthy (JBool b) = b"
| "truthy (JNum n) = truthy_number n"
| "truthy (JStr s) = (s \<noteq> [])"
| "truthy JObject = True"

record activity_body =
  category :: json
  "value" :: json
  unit :: json
  timestamp :: json
  "notes" :: json

text \<open>
  \<^verbatim>\<open>createErrorResponse(message, error, errorCode)\<close> (server.ts, lines 96-120): the
  message, and the error code when the code is a non-empty string. The constant
  field \<^verbatim>\<open>success\<close>, the time stamp and the details of a caught error are left out.
\<close>

record error_response =
  message :: string
  error_code :: "string option"

definition createErrorResponse :: "string \<Rightarrow> string \<Rightarrow> error_response" where
  "createErrorResponse msg errorCode =
     \<lparr>message = msg, error_code = (if errorCode \<noteq> [] then Some errorCode else None)\<rparr>"

text \<open>
  A response is a status with an error body, or the status 201 with the new
  activity, built from the category, value and unit of the request, whose impact
  is the result of the call \<^verbatim>\<open>calculateImpact(category, value, unit)\<close>.
\<close>

datatype response = Failed nat error_response | Created json json json

text \<open>
  What the middleware \<^verbatim>\<open>authenticateToken\<close> reads from outside the request: the
  tokens that \<^verbatim>\<open>jwt.verify\<close> accepts, each with the \<^verbatim>\<open>user_id\<close> of its payload (on
  any other token \<^verbatim>\<open>jwt.verify\<close> throws), the ids of the rows of the table
  \<^verbatim>\<open>users\<close>, and whether the query of the database throws.
\<close>

record environment =
  valid_tokens :: "(string \<times> string) list"
  users :: "string list"
  query_throws :: bool

text \<open>
  A request: the \<^verbatim>\<open>authorization\<close> header, if there is one, and the parsed body,
  if there is one.
\<close>

record request =
  authorization :: "string option"
  body :: "activity_body option"

text \<open>\<^verbatim>\<open>s.split(' ')\<close>, and \<^verbatim>\<open>array[i]\<close>, which is \<^verbatim>\<open>undefined\<close> (here \<open>None\<close>) out of range.\<close>

fun split :: "char \<Rightarrow> string \<Rightarrow> string list" where
  "split c [] = [[]]"
| "split c (x # xs) =
     (if x = c then [] # split c xs
      else (case split c xs of [] \<Rightarrow> [[x]] | w # ws \<Rightarrow> (x # w) # ws))"

definition element :: "'a list \<Rightarrow> nat \<Rightarrow> 'a option" where
  "element xs i = (if i < length xs then Some (xs ! i) else None)"

text \<open>
  The middleware \<^verbatim>\<open>authenticateToken\<close> (server.ts, lines 126-147) runs before the
  handler. It answers by itself with 401 when the token is missing or empty and
  when no user has the token's id, and with 403 when \<^verbatim>\<open>jwt.verify\<close> or the query
  throws; otherwise it attaches the user to the request (here: passes on the user's
  id) and calls the handler.
\<close>

datatype middleware = Respond response | Next string

definition authenticateToken :: "environment \<Rightarrow> request \<Rightarrow> middleware" where
  "authenticateToken env req =
     (let authHeader = authorization req;
          token = (case authHeader of
                     None \<Rightarrow> None
                   | Some h \<Rightarrow> if h = [] then Some h else element (split CHR '' '' h) 1);
          missing = Respond (Failed 401 (createErrorResponse ''Access token required'' ''AUTH_TOKEN_MISSING''));
          invalid = Respond (Failed 403 (createErrorResponse ''Invalid or expired token'' ''AUTH_TOKEN_INVALID''))
      in case token of
           None \<Rightarrow> missing
         | Some t \<Rightarrow>
             if t = [] then missing
             else
               (case map_of (valid_tokens env) t of
                  None \<Rightarrow> invalid
                | Some user_id \<Rightarrow>
                    if query_throws env then invalid
                    else
                      (case filter (\<lambda>id. id = user_id) (users env) of
                         [] \<Rightarrow> Respond (Failed 401 (createErrorResponse ''Invalid token'' ''AUTH_USER_NOT_FOUND''))
                       | user # _ \<Rightarrow> Next user)))"

text \<open>
  The handler of \<^verbatim>\<open>POST /api/activities\<close> (server.ts, lines 496-523). The result
  is the list of the calls of \<^verbatim>\<open>calculateImpact\<close> the handler makes, each with its
  three arguments, and the response. A request without a parsed body makes the
  destructuring throw, which the handler's \<^verbatim>\<open>catch\<close> answers with the status 500.
\<close>

definition create_activity :: "request \<Rightarrow> (json \<times> json \<times> json) list \<times> response" where
  "create_activity req =
     (case body req of
        None \<Rightarrow> ([], Failed 500 (createErrorResponse ''Internal server error'' ''INTERNAL_SERVER_ERROR''))
      | Some b \<Rightarrow>
          if \<not> truthy (category b) \<or> \<not> truthy (value b) \<or> \<not> truthy (unit b) then
            ([], Failed 400 (createErrorResponse ''Category, value, and unit are required''
                               ''MISSING_REQUIRED_FIELDS''))
          else ([(category b, value b, unit b)], Created (category b) (value b) (unit b)))"

text \<open>
  The route \<^verbatim>\<open>app.post('/api/activities', authenticateToken, handler)\<close>: the handler
  runs when the middleware has called \<^verbatim>\<open>next()\<close>.
\<close>

definition post_activities :: "environment \<Rightarrow> request \<Rightarrow> (json \<times> json \<times> json) list \<times> response" where
  "post_activities env req =
     (case authenticateToken env req of
        Respond r \<Rightarrow> ([], r)
      | Next user \<Rightarrow> create_activity req)"

text \<open>
  The handler passes the three fields to \<^verbatim>\<open>calculateImpact\<close> as they are. The
  calculator uses \<^verbatim>\<open>value\<close> as an operand of \<^verbatim>\<open>*\<close> only, which converts it to a
  number first: \<^verbatim>\<open>undefined\<close> to NaN, \<^verbatim>\<open>null\<close> and \<^verbatim>\<open>false\<close> to 0, \<^verbatim>\<open>true\<close> to 1, the
  empty string to 0 and a string of decimal digits to the number it writes. The
  other strings (signs, fractions, exponents, white space, other text) and the
  arrays and objects are outside this model: for them the conversion is \<open>None\<close>.
\<close>

definition digit :: "char \<Rightarrow> nat option" where
  "digit c =
     (let n = (of_char c :: nat) in if 48 \<le> n \<and> n \<le> 57 then Some (n - 48) else None)"

fun decimal :: "nat \<Rightarrow> string \<Rightarrow> nat option" where
  "decimal acc [] = Some acc"
| "decimal acc (c # cs) =
     (case digit c of None \<Rightarrow> None | Some d \<Rightarrow> decimal (10 * acc + d) cs)"

definition string_to_number :: "string \<Rightarrow> number option" where
  "string_to_number s =
     (if s = [] then Some (Fin 0) else map_option (\<lambda>n. lit (of_nat n)) (decimal 0 s))"

fun json_to_number :: "json \<Rightarrow> number option" where
  "json_to_number JUndefined = Some NaN"
| "json_to_number JNull = Some (Fin 0)"
| "json_to_number (JBool b) = Some (Fin (if b then 1 else 0))"
| "json_to_number (JNum n) = Some n"
| "json_to_number (JStr s) = string_to_number s"
| "json_to_number JObject = None"

text \<open>
  The result of a call \<^verbatim>\<open>calculateImpact(category, value, unit)\<close> that the handler
  makes, for a string category and unit and a value whose conversion is modelled.
\<close>

fun invoke :: "json \<times> json \<times> json \<Rightarrow> (error + impact_result) option" where
  "invoke (JStr c, v, JStr u) = map_option (\<lambda>n. calculateImpact c n u) (json_to_number v)"
| "invoke _ = None"

section \<open>Rounding to the nearest binary64 value\<close>

text \<open>The integer rounding is monotone and leaves integers alone.\<close>

lemma round_half_even_of_int [simp]: "round_half_even (of_int n) = n"
  by (simp add: round_half_even_def)

lemma round_half_even_cases: "round_half_even x = \<lfloor>x\<rfloor> \<or> round_half_even x = \<lfloor>x\<rfloor> + 1"
  by (simp add: round_half_even_def Let_def)

lemma round_half_even_mono:
  assumes "x \<le> y"
  shows "round_half_even x \<le> round_half_even y"
proof -
  have fl: "\<lfloor>x\<rfloor> \<le> \<lfloor>y\<rfloor>" using assms by (rule floor_mono)
  show ?thesis
  proof (cases "\<lfloor>x\<rfloor> < \<lfloor>y\<rfloor>")
    case True
    have "round_half_even x \<le> \<lfloor>x\<rfloor> + 1" using round_half_even_cases [of x] by auto
    moreover have "\<lfloor>y\<rfloor> \<le> round_half_even y" using round_half_even_cases [of y] by auto
    ultimately show ?thesis using True by linarith
  next
    case False
    with fl have eq: "\<lfloor>x\<rfloor> = \<lfloor>y\<rfloor>" by simp
    then have "x - of_int \<lfloor>x\<rfloor> \<le> y - of_int \<lfloor>y\<rfloor>" using assms by simp
    then show ?thesis using eq
      by (auto simp: round_half_even_def Let_def)
  qed
qed

lemma round_half_even_ge: "of_int n \<le> x \<Longrightarrow> n \<le> round_half_even x"
  using round_half_even_mono [of "of_int n" x] by simp

lemma round_half_even_le: "x \<le> of_int n \<Longrightarrow> round_half_even x \<le> n"
  using round_half_even_mono [of x "of_int n"] by simp

text \<open>The binary exponent computed from the bit lengths is the right one.\<close>

lemma bitlen_pos: "0 < n \<Longrightarrow> 1 \<le> bitlen n"
  using bitlen_eq_zero_iff [of n] bitlen_nonneg [of n] by linarith

lemma floor_log2_ge1:
  assumes "1 \<le> a"
  shows "2 powi (floor_log2 a) \<le> a" and "a < 2 powi (floor_log2 a + 1)"
proof -
  from assms have n: "0 < \<lfloor>a\<rfloor>" by linarith
  note b = bitlen_bounds [OF n]
  have k: "0 \<le> bitlen \<lfloor>a\<rfloor> - 1" using bitlen_pos [OF n] by simp
  have e: "floor_log2 a = bitlen \<lfloor>a\<rfloor> - 1" using assms by (simp add: floor_log2_def)
  have "(2::rat) powi (bitlen \<lfloor>a\<rfloor> - 1) = of_int (2 ^ nat (bitlen \<lfloor>a\<rfloor> - 1))"
    using k by (simp add: power_int_nonneg_exp)
  also have "\<dots> \<le> of_int \<lfloor>a\<rfloor>" using b by (simp only: of_int_le_iff)
  also have "\<dots> \<le> a" by simp
  finally show "2 powi (floor_log2 a) \<le> a" by (simp only: e)
  have "\<lfloor>a\<rfloor> + 1 \<le> 2 ^ nat (bitlen \<lfloor>a\<rfloor>)" using b by simp
  then have "(of_int (\<lfloor>a\<rfloor> + 1) :: rat) \<le> of_int (2 ^ nat (bitlen \<lfloor>a\<rfloor>))"
    by (simp only: of_int_le_iff)
  moreover have "a < of_int (\<lfloor>a\<rfloor> + 1)" by linarith
  moreover have "(2::rat) powi (bitlen \<lfloor>a\<rfloor>) = of_int (2 ^ nat (bitlen \<lfloor>a\<rfloor>))"
    using k by (simp add: power_int_nonneg_exp)
  ultimately show "a < 2 powi (floor_log2 a + 1)" by (simp add: e)
qed

lemma floor_log2_lt1:
  assumes "0 < a" "a < 1"
  shows "2 powi (floor_log2 a) \<le> a" and "a < 2 powi (floor_log2 a + 1)"
proof -
  define b where "b = 1 / a"
  define m where "m = \<lceil>b\<rceil> - 1"
  have b1: "1 < b" using assms by (simp add: b_def)
  then have m: "0 < m" unfolding m_def by linarith
  note bb = bitlen_bounds [OF m]
  have k: "1 \<le> bitlen m" using bitlen_pos [OF m] .
  have e: "floor_log2 a = - bitlen m" using assms by (simp add: floor_log2_def m_def b_def)
  have a: "a = 1 / b" using assms by (simp add: b_def)
  have p: "(2::rat) powi (bitlen m) = of_int (2 ^ nat (bitlen m))"
    using k by (simp add: power_int_nonneg_exp)
  have p1: "(2::rat) powi (bitlen m - 1) = of_int (2 ^ nat (bitlen m - 1))"
    using k by (simp add: power_int_nonneg_exp)
  have "\<lceil>b\<rceil> \<le> 2 ^ nat (bitlen m)" using bb by (simp add: m_def)
  then have "(of_int \<lceil>b\<rceil> :: rat) \<le> of_int (2 ^ nat (bitlen m))" by (simp only: of_int_le_iff)
  moreover have "b \<le> of_int \<lceil>b\<rceil>" by simp
  ultimately have ub: "b \<le> 2 powi (bitlen m)" using p by linarith
  have "(of_int (2 ^ nat (bitlen m - 1)) :: rat) \<le> of_int m" using bb by (simp only: of_int_le_iff)
  moreover have "of_int m < b" unfolding m_def by linarith
  ultimately have lb: "2 powi (bitlen m - 1) < b" using p1 by linarith
  have pos: "(0::rat) < 2 powi (bitlen m)" "(0::rat) < 2 powi (bitlen m - 1)" by simp_all
  have "1 / (2 powi (bitlen m)) \<le> 1 / b" using ub b1 pos by (simp add: frac_le)
  then have "2 powi (- bitlen m) \<le> a" unfolding a by (simp add: power_int_minus_divide)
  then show "2 powi (floor_log2 a) \<le> a" by (simp only: e)
  have "1 / b < 1 / (2 powi (bitlen m - 1))" using lb pos by (simp add: frac_less2)
  moreover have "(2::rat) powi (- bitlen m + 1) = 1 / 2 powi (bitlen m - 1)"
    using power_int_minus_divide [of "2::rat" "bitlen m - 1"] by simp
  ultimately have "a < 2 powi (- bitlen m + 1)" unfolding a by simp
  then show "a < 2 powi (floor_log2 a + 1)" by (simp only: e)
qed

lemma floor_log2_bounds:
  assumes "0 < a"
  shows "2 powi (floor_log2 a) \<le> a" and "a < 2 powi (floor_log2 a + 1)"
  using floor_log2_ge1 [of a] floor_log2_lt1 [of a] assms by (cases "1 \<le> a"; simp)+

lemma floor_log2_mono:
  assumes "0 < a" "a \<le> b"
  shows "floor_log2 a \<le> floor_log2 b"
proof -
  have "(2::rat) powi (floor_log2 a) \<le> a" using floor_log2_bounds(1) assms by simp
  also have "a \<le> b" by fact
  also have "b < 2 powi (floor_log2 b + 1)" using floor_log2_bounds(2) [of b] assms by simp
  finally have lt: "(2::rat) powi (floor_log2 a) < 2 powi (floor_log2 b + 1)" .
  show ?thesis
  proof (rule ccontr)
    assume "\<not> floor_log2 a \<le> floor_log2 b"
    then have "floor_log2 b + 1 \<le> floor_log2 a" by simp
    then have "(2::rat) powi (floor_log2 b + 1) \<le> 2 powi (floor_log2 a)"
      by (rule power_int_increasing) simp
    with lt show False by simp
  qed
qed


text \<open>Rounding a magnitude is monotone and gives no negative result.\<close>

lemma exponent_upper: "0 < a \<Longrightarrow> a < 2 powi (exponent a + 1)"
proof -
  assume a: "0 < a"
  have "a < 2 powi (floor_log2 a + 1)" using floor_log2_bounds(2) [OF a] .
  also have "(2::rat) powi (floor_log2 a + 1) \<le> 2 powi (exponent a + 1)"
    by (rule power_int_increasing) (simp_all add: exponent_def)
  finally show ?thesis .
qed

lemma exponent_lower: "0 < a \<Longrightarrow> - 1022 < exponent a \<Longrightarrow> 2 powi (exponent a) \<le> a"
  using floor_log2_bounds(1) [of a] by (simp add: exponent_def max_def split: if_splits)

lemma exponent_mono: "0 < a \<Longrightarrow> a \<le> b \<Longrightarrow> exponent a \<le> exponent b"
  using floor_log2_mono [of a b] by (simp add: exponent_def)

lemma round_nearest_0 [simp]: "round_nearest 0 = 0"
  by (simp add: round_nearest_def)

lemma round_nearest_nonneg: "0 \<le> a \<Longrightarrow> 0 \<le> round_nearest a"
proof -
  assume a: "0 \<le> a"
  have "0 \<le> round_half_even (a / 2 powi (exponent a - 52))"
    by (rule round_half_even_ge) (use a in simp)
  then show ?thesis by (simp add: round_nearest_def Let_def)
qed

lemma round_nearest_le_pow:
  assumes "0 < a"
  shows "round_nearest a \<le> 2 powi (exponent a + 1)"
proof -
  let ?u = "(2::rat) powi (exponent a - 52)"
  have u: "0 < ?u" by simp
  have "exponent a + 1 = 53 + (exponent a - 52)" by simp
  then have "(2::rat) powi (exponent a + 1) = 2 powi (53 + (exponent a - 52))" by (rule arg_cong)
  also have "\<dots> = 2 powi 53 * ?u" by (rule power_int_add) simp
  finally have split: "(2::rat) powi (exponent a + 1) = 2 ^ 53 * ?u" by simp
  have "a / ?u \<le> 2 ^ 53"
    using exponent_upper [OF assms] u unfolding split by (simp add: pos_divide_le_eq)
  then have "a / ?u \<le> of_int (2 ^ 53)" by simp
  then have "round_half_even (a / ?u) \<le> 2 ^ 53" by (rule round_half_even_le)
  then have "(of_int (round_half_even (a / ?u)) :: rat) \<le> of_int (2 ^ 53)"
    by (simp only: of_int_le_iff)
  then have "of_int (round_half_even (a / ?u)) * ?u \<le> 2 ^ 53 * ?u"
    using u by simp
  then show ?thesis using assms unfolding split by (simp add: round_nearest_def Let_def)
qed

lemma round_nearest_ge_pow:
  assumes "0 < a" "- 1022 < exponent a"
  shows "2 powi (exponent a) \<le> round_nearest a"
proof -
  let ?u = "(2::rat) powi (exponent a - 52)"
  have u: "0 < ?u" by simp
  have "exponent a = 52 + (exponent a - 52)" by simp
  then have "(2::rat) powi (exponent a) = 2 powi (52 + (exponent a - 52))" by (rule arg_cong)
  also have "\<dots> = 2 powi 52 * ?u" by (rule power_int_add) simp
  finally have split: "(2::rat) powi (exponent a) = 2 ^ 52 * ?u" by simp
  have "2 ^ 52 \<le> a / ?u"
    using exponent_lower [OF assms] u unfolding split by (simp add: pos_le_divide_eq)
  then have "of_int (2 ^ 52) \<le> a / ?u" by simp
  then have "2 ^ 52 \<le> round_half_even (a / ?u)" by (rule round_half_even_ge)
  then have "(of_int (2 ^ 52) :: rat) \<le> of_int (round_half_even (a / ?u))"
    by (simp only: of_int_le_iff)
  then have "2 ^ 52 * ?u \<le> of_int (round_half_even (a / ?u)) * ?u"
    using u by simp
  then show ?thesis using assms unfolding split by (simp add: round_nearest_def Let_def)
qed

lemma round_nearest_mono:
  assumes "0 \<le> a" "a \<le> b"
  shows "round_nearest a \<le> round_nearest b"
proof (cases "a = 0")
  case True
  then show ?thesis using round_nearest_nonneg [of b] assms by simp
next
  case False
  with assms have a: "0 < a" and b: "0 < b" by simp_all
  have le: "exponent a \<le> exponent b" using exponent_mono [OF a assms(2)] .
  show ?thesis
  proof (cases "exponent a = exponent b")
    case True
    let ?u = "(2::rat) powi (exponent a - 52)"
    have u: "0 < ?u" by simp
    have "a / ?u \<le> b / ?u" using assms(2) u by (simp add: divide_right_mono)
    then have "round_half_even (a / ?u) \<le> round_half_even (b / ?u)"
      by (rule round_half_even_mono)
    then have "(of_int (round_half_even (a / ?u)) :: rat) \<le> of_int (round_half_even (b / ?u))"
      by (simp only: of_int_le_iff)
    then have "of_int (round_half_even (a / ?u)) * ?u \<le> of_int (round_half_even (b / ?u)) * ?u"
      using u by simp
    then show ?thesis using a b True by (simp add: round_nearest_def Let_def)
  next
    case False
    with le have lt: "exponent a + 1 \<le> exponent b" by simp
    have "- 1022 \<le> exponent a" by (simp add: exponent_def)
    with lt have low: "- 1022 < exponent b" by simp
    have "round_nearest a \<le> 2 powi (exponent a + 1)" using round_nearest_le_pow [OF a] .
    also have "(2::rat) powi (exponent a + 1) \<le> 2 powi (exponent b)"
      using lt by (rule power_int_increasing) simp
    also have "\<dots> \<le> round_nearest b" using round_nearest_ge_pow [OF b low] .
    finally show ?thesis .
  qed
qed


text \<open>
  A rounding is checked from its exponent \<open>e\<close> and its significand \<open>n\<close>: the magnitude
  lies in the binade of \<open>e\<close> and within half a unit of \<open>n\<close> units.
\<close>

lemma floor_log2_unique:
  assumes "2 powi e \<le> a" "a < 2 powi (e + 1)"
  shows "floor_log2 a = e"
proof -
  have "(0::rat) < 2 powi e" by simp
  with assms(1) have a: "0 < a" by linarith
  have "(2::rat) powi (floor_log2 a) < 2 powi (e + 1)"
    using floor_log2_bounds(1) [OF a] assms(2) by linarith
  then have 1: "floor_log2 a < e + 1"
    using power_int_increasing [of "e + 1" "floor_log2 a" "2::rat"] by (cases "floor_log2 a < e + 1") auto
  have "(2::rat) powi e < 2 powi (floor_log2 a + 1)"
    using floor_log2_bounds(2) [OF a] assms(1) by linarith
  then have 2: "e < floor_log2 a + 1"
    using power_int_increasing [of "floor_log2 a + 1" e "2::rat"] by (cases "e < floor_log2 a + 1") auto
  from 1 2 show ?thesis by simp
qed

lemma round_half_even_unique:
  assumes "\<bar>x - of_int n\<bar> < 1 / 2"
  shows "round_half_even x = n"
proof -
  from assms have lo: "of_int n - 1 / 2 < x" and hi: "x < of_int n + 1 / 2"
    by linarith+
  have "of_int (n - 1) \<le> x" using lo by simp
  then have 1: "n - 1 \<le> \<lfloor>x\<rfloor>" by (simp only: le_floor_iff)
  have "x < of_int (n + 1)" using hi by simp
  then have 2: "\<lfloor>x\<rfloor> < n + 1" by (simp only: floor_less_iff)
  from 1 2 have "\<lfloor>x\<rfloor> = n \<or> \<lfloor>x\<rfloor> = n - 1" by linarith
  then show ?thesis using lo hi
    by (auto simp: round_half_even_def Let_def)
qed

lemma round_nearest_cert:
  assumes "- 1022 \<le> e" "2 powi e \<le> a" "a < 2 powi (e + 1)"
    and "u = 2 powi (e - 52)" "\<bar>a / u - of_int n\<bar> < 1 / 2"
  shows "round_nearest a = of_int n * u"
proof -
  have "(0::rat) < 2 powi e" by simp
  with assms(2) have a: "a \<noteq> 0" by linarith
  have "exponent a = e" using floor_log2_unique [OF assms(2,3)] assms(1) by (simp add: exponent_def)
  then show ?thesis using a round_half_even_unique [OF assms(5)] assms(4)
    by (simp add: round_nearest_def Let_def)
qed

lemma to_double_cert:
  assumes "- 1022 \<le> e" "2 powi e \<le> a" "a < 2 powi (e + 1)"
    and "u = 2 powi (e - 52)" "\<bar>a / u - of_int n\<bar> < 1 / 2"
    and "r = of_int n * u" "r < 2 ^ 1024"
  shows "to_double s a = signed s r"
  using round_nearest_cert [OF assms(1-5)] assms(6-7)
  by (simp add: to_double_def overflow_threshold_def Let_def)


lemma to_double_cert_pos:
  assumes "- 1022 \<le> e" "2 powi e \<le> a" "a < 2 powi (e + 1)"
    and "u = 2 powi (e - 52)" "\<bar>a / u - of_int n\<bar> < 1 / 2"
    and "r = of_int n * u" "r < 2 ^ 1024" "r \<noteq> 0"
  shows "to_double False a = Fin r"
  using to_double_cert [OF assms(1-7), of False] assms(8) by (simp add: signed_def)

lemma to_double_cert_neg:
  assumes "- 1022 \<le> e" "2 powi e \<le> a" "a < 2 powi (e + 1)"
    and "u = 2 powi (e - 52)" "\<bar>a / u - of_int n\<bar> < 1 / 2"
    and "r = of_int n * u" "r < 2 ^ 1024" "r \<noteq> 0"
  shows "to_double True a = Fin (- r)"
  using to_double_cert [OF assms(1-7), of True] assms(8) by (simp add: signed_def)

section \<open>Arithmetic on numbers\<close>

lemma to_double_False:
  "to_double False p = (if overflow_threshold \<le> round_nearest p then PosInf else Fin (round_nearest p))"
  by (simp add: to_double_def signed_def infinity_def Let_def)

lemma to_double_True:
  "to_double True p =
     (if overflow_threshold \<le> round_nearest p then NegInf
      else if round_nearest p = 0 then NegZero else Fin (- round_nearest p))"
  by (simp add: to_double_def signed_def infinity_def Let_def)

lemma overflow_threshold_pos: "0 < overflow_threshold"
  by (simp add: overflow_threshold_def)

lemma to_double_zero [simp]: "to_double s 0 = signed s 0"
  using overflow_threshold_pos by (simp add: to_double_def)

lemma num_mul_pos: "0 < a \<Longrightarrow> 0 < b \<Longrightarrow> num_mul (Fin a) (Fin b) = to_double False (a * b)"
  by (simp add: num_mul_def)

lemma num_mul_Fin: "0 < b \<Longrightarrow> num_mul (Fin a) (Fin b) = to_double (a < 0) (\<bar>a\<bar> * b)"
  by (simp add: num_mul_def)

lemma num_mul_special:
  assumes "0 < b"
  shows "num_mul NaN (Fin b) = NaN" "num_mul PosInf (Fin b) = PosInf"
    "num_mul NegInf (Fin b) = NegInf" "num_mul NegZero (Fin b) = NegZero"
  using assms by (simp_all add: num_mul_def infinity_def signed_def)

lemma num_div_Fin: "0 < b \<Longrightarrow> num_div (Fin a) (Fin b) = to_double (a < 0) (\<bar>a\<bar> / b)"
  by (simp add: num_div_def)

lemma num_div_special:
  assumes "0 < b"
  shows "num_div NaN (Fin b) = NaN" "num_div PosInf (Fin b) = PosInf"
    "num_div NegInf (Fin b) = NegInf" "num_div NegZero (Fin b) = NegZero"
  using assms by (simp_all add: num_div_def infinity_def signed_def)

lemma math_round_nonneg: "0 \<le> q \<Longrightarrow> math_round (Fin q) = Fin (of_int \<lfloor>q + 1 / 2\<rfloor>)"
proof -
  assume q: "0 \<le> q"
  then have "0 \<le> \<lfloor>q + 1 / 2\<rfloor>" by simp
  then show ?thesis using q by (simp add: signed_def)
qed

lemma to_double_False_nonneg:
  "0 \<le> p \<Longrightarrow> num_le (Fin 0) (to_double False p)" "0 \<le> p \<Longrightarrow> num_le NegZero (to_double False p)"
  using round_nearest_nonneg [of p] by (simp_all add: to_double_False num_le_def)

lemma to_double_False_mono:
  "0 \<le> p \<Longrightarrow> p \<le> q \<Longrightarrow> num_le (to_double False p) (to_double False q)"
  using round_nearest_mono [of p q] by (simp add: to_double_False num_le_def)

lemma nonneg_cases:
  assumes "num_le (Fin 0) x"
  obtains "x = PosInf" | "x = NegZero" | q where "x = Fin q" "0 \<le> q"
  using assms by (cases x) (auto simp: num_le_def)

lemma lit_hundred: "lit 100 = Fin 100"
  unfolding lit_def by (simp, rule to_double_cert_pos [where e = 6 and n = 7036874417766400 and u = "1 / 2 ^ 46"]) simp_all


lemma num_le_refl_nonneg: "num_le (Fin 0) x \<Longrightarrow> num_le x x"
  by (cases x) (simp_all add: num_le_def)

lemma mul_factor_mono:
  assumes "0 < bw" "bw \<le> bc" "num_le (Fin 0) v"
  shows "num_le (Fin 0) (num_mul v (Fin bw)) \<and> num_le (num_mul v (Fin bw)) (num_mul v (Fin bc))"
  using assms(3)
proof (cases rule: nonneg_cases)
  case 1
  then show ?thesis using assms by (simp add: num_mul_special num_le_def)
next
  case 2
  then show ?thesis using assms by (simp add: num_mul_special num_le_def)
next
  case (3 q)
  have "q * bw \<le> q * bc" using 3 assms by (simp add: mult_left_mono)
  moreover have "0 \<le> q * bw" using 3 assms by simp
  ultimately show ?thesis using 3 assms
    by (simp add: num_mul_Fin to_double_False_nonneg to_double_False_mono)
qed

lemma mul_mono:
  assumes "0 < b" "num_le (Fin 0) y" "num_le y x"
  shows "num_le (Fin 0) (num_mul y (Fin b)) \<and> num_le (num_mul y (Fin b)) (num_mul x (Fin b))"
proof (cases y; cases x)
  fix p q assume yx: "y = Fin p" "x = Fin q"
  with assms have p: "0 \<le> p" and pq: "p \<le> q" by (simp_all add: num_le_def)
  then have "p * b \<le> q * b" "0 \<le> p * b" using assms(1) by (simp_all add: mult_right_mono)
  then show ?thesis using yx p pq assms(1)
    by (simp add: num_mul_Fin to_double_False_nonneg to_double_False_mono)
qed (use assms in \<open>auto simp: num_le_def num_mul_special num_mul_Fin to_double_False signed_def
       intro!: round_nearest_nonneg mult_nonneg_nonneg\<close>)


lemma div_mono:
  assumes "0 < b" "num_le (Fin 0) y" "num_le y x"
  shows "num_le (Fin 0) (num_div y (Fin b)) \<and> num_le (num_div y (Fin b)) (num_div x (Fin b))"
proof (cases y; cases x)
  fix p q assume yx: "y = Fin p" "x = Fin q"
  with assms have p: "0 \<le> p" and pq: "p \<le> q" by (simp_all add: num_le_def)
  then have "p / b \<le> q / b" "0 \<le> p / b" using assms(1) by (simp_all add: divide_right_mono)
  then show ?thesis using yx p pq assms(1)
    by (simp add: num_div_Fin to_double_False_nonneg to_double_False_mono)
qed (use assms in \<open>auto simp: num_le_def num_div_special num_div_Fin to_double_False signed_def
       intro!: round_nearest_nonneg divide_nonneg_nonneg\<close>)

lemma round_mono:
  assumes "num_le (Fin 0) y" "num_le y x"
  shows "num_le (Fin 0) (math_round y) \<and> num_le (math_round y) (math_round x)"
proof (cases y; cases x)
  fix p q assume yx: "y = Fin p" "x = Fin q"
  with assms have p: "0 \<le> p" and pq: "p \<le> q" by (simp_all add: num_le_def)
  then have fl: "\<lfloor>p + 1 / 2\<rfloor> \<le> \<lfloor>q + 1 / 2\<rfloor>" "0 \<le> \<lfloor>p + 1 / 2\<rfloor>" by (simp_all add: floor_mono)
  have mp: "math_round (Fin p) = Fin (of_int \<lfloor>p + 1 / 2\<rfloor>)" using p by (rule math_round_nonneg)
  have mq: "math_round (Fin q) = Fin (of_int \<lfloor>q + 1 / 2\<rfloor>)" using p pq by (intro math_round_nonneg) simp
  show ?thesis unfolding yx mp mq using fl by (simp add: num_le_def)
qed (use assms in \<open>auto simp: num_le_def signed_def\<close>)

lemma round2_mono:
  assumes "num_le (Fin 0) y" "num_le y x"
  shows "num_le (Fin 0) (round2 y) \<and> num_le (round2 y) (round2 x)"
proof -
  have h: "(0::rat) < 100" by simp
  note 1 = mul_mono [OF h assms]
  note 2 = round_mono [OF conjunct1 [OF 1] conjunct2 [OF 1]]
  note 3 = div_mono [OF h conjunct1 [OF 2] conjunct2 [OF 2]]
  then show ?thesis by (simp add: round2_def lit_hundred)
qed

lemma is_neg_to_double: "0 \<le> p \<Longrightarrow> is_neg (to_double True p)"
  using round_nearest_nonneg [of p] by (simp add: to_double_True)

lemma is_neg_mul: "0 < b \<Longrightarrow> is_neg x \<Longrightarrow> is_neg (num_mul x (Fin b))"
  by (cases x) (simp_all add: num_mul_special num_mul_Fin is_neg_to_double mult_le_0_iff)

lemma is_neg_div: "0 < b \<Longrightarrow> is_neg x \<Longrightarrow> is_neg (num_div x (Fin b))"
  by (cases x) (simp_all add: num_div_special num_div_Fin is_neg_to_double divide_le_0_iff)

lemma is_neg_signed: "0 \<le> m \<Longrightarrow> is_neg (signed True m)"
  by (simp add: signed_def)

lemma is_neg_round: "is_neg x \<Longrightarrow> is_neg (math_round x)"
proof (cases x)
  case (Fin q)
  have "is_neg (signed True \<bar>of_int \<lfloor>q + 1 / 2\<rfloor>\<bar>)" by (rule is_neg_signed) simp
  moreover assume "is_neg x"
  ultimately show ?thesis using Fin by simp
qed simp_all

lemma is_neg_round2: "is_neg x \<Longrightarrow> is_neg (round2 x)"
  by (simp add: round2_def lit_hundred is_neg_mul is_neg_div is_neg_round)

lemma is_neg_le_zero: "is_neg x \<Longrightarrow> num_le x (Fin 0)"
  by (cases x) (simp_all add: num_le_def)

lemma less_zero_is_neg: "num_less x (Fin 0) \<Longrightarrow> is_neg x"
  by (cases x) (simp_all add: num_less_def)

lemma floor_half: "\<lfloor>(1::rat) / 2\<rfloor> = 0"
  by (simp add: floor_eq_iff)

lemma round2_zero:
  assumes "0 < b"
  shows "round2 (num_mul (Fin 0) (Fin b)) = Fin 0" "round2 (num_mul NegZero (Fin b)) = NegZero"
  using assms
  by (simp_all add: round2_def lit_hundred num_mul_Fin num_mul_special num_div_Fin num_div_special signed_def floor_half)

section \<open>The calculator on each category\<close>

lemma lit_half: "lit (1 / 2) = Fin (1 / 2)"
  unfolding lit_def by (simp, rule to_double_cert_pos [where e = "- 1" and n = 4503599627370496 and u = "1 / 2 ^ 53"]) simp_all

lemma lit_tenth: "lit (1 / 10) = Fin (3602879701896397 / 36028797018963968)"
  unfolding lit_def by (simp, rule to_double_cert_pos [where e = "- 4" and n = 7205759403792794 and u = "1 / 2 ^ 56"]) simp_all

lemma lit_two_fifths: "lit (2 / 5) = Fin (3602879701896397 / 9007199254740992)"
  unfolding lit_def by (simp, rule to_double_cert_pos [where e = "- 2" and n = 7205759403792794 and u = "1 / 2 ^ 54"]) simp_all

lemma lit_five_halves: "lit (5 / 2) = Fin (5 / 2)"
  unfolding lit_def by (simp, rule to_double_cert_pos [where e = 1 and n = 5629499534213120 and u = "1 / 2 ^ 51"]) simp_all

lemma lit_nine_fifths: "lit (9 / 5) = Fin (8106479329266893 / 4503599627370496)"
  unfolding lit_def by (simp, rule to_double_cert_pos [where e = 0 and n = 8106479329266893 and u = "1 / 2 ^ 52"]) simp_all

lemma lit_three_tenths: "lit (3 / 10) = Fin (5404319552844595 / 18014398509481984)"
  unfolding lit_def by (simp, rule to_double_cert_pos [where e = "- 2" and n = 5404319552844595 and u = "1 / 2 ^ 54"]) simp_all

lemma lit_5_2: "lit (26 / 5) = Fin (5854679515581645 / 1125899906842624)"
  unfolding lit_def by (simp, rule to_double_cert_pos [where e = 2 and n = 5854679515581645 and u = "1 / 2 ^ 50"]) simp_all

lemma lit_3_5: "lit (7 / 2) = Fin (7 / 2)"
  unfolding lit_def by (simp, rule to_double_cert_pos [where e = 1 and n = 7881299347898368 and u = "1 / 2 ^ 51"]) simp_all

lemma lit_2_1: "lit (21 / 10) = Fin (4728779608739021 / 2251799813685248)"
  unfolding lit_def by (simp, rule to_double_cert_pos [where e = 1 and n = 4728779608739021 and u = "1 / 2 ^ 51"]) simp_all

lemma truthy_factors:
  "truthy_number (lit (2 / 5))" "truthy_number (lit (1 / 10))"
  "truthy_number (lit (5 / 2))" "truthy_number (lit (1 / 2))"
  "truthy_number (lit (9 / 5))" "truthy_number (lit (3 / 10))"
  by (simp_all add: truthy_number_def lit_two_fifths lit_tenth lit_five_halves
        lit_half lit_nine_fifths lit_three_tenths)

lemma calculateImpact_transport:
  "calculateImpact ''transport'' v u =
     Inr \<lparr>co2_saved = round2 (num_mul v (lit (2 / 5))),
          water_conserved = round2 (num_mul v (lit (1 / 10)))\<rparr>"
  by (simp add: calculateImpact_def impactMultipliers_def get_property_def truthy_object_def
        object_keys_def first_key_def to_property_key_def read_property_def or_else_def
        bind_def to_number_def round2_def truthy_factors truthy_field_def object_prototype_keys_def)

lemma calculateImpact_energy:
  "calculateImpact ''energy'' v u =
     Inr \<lparr>co2_saved = round2 (num_mul v (lit (5 / 2))),
          water_conserved = round2 (num_mul v (lit (1 / 2)))\<rparr>"
  by (simp add: calculateImpact_def impactMultipliers_def get_property_def truthy_object_def
        object_keys_def first_key_def to_property_key_def read_property_def or_else_def
        bind_def to_number_def round2_def truthy_factors truthy_field_def object_prototype_keys_def)

lemma calculateImpact_waste:
  "calculateImpact ''waste'' v u =
     Inr \<lparr>co2_saved = round2 (num_mul v (lit (9 / 5))),
          water_conserved = round2 (num_mul v (lit (3 / 10)))\<rparr>"
  by (simp add: calculateImpact_def impactMultipliers_def get_property_def truthy_object_def
        object_keys_def first_key_def to_property_key_def read_property_def or_else_def
        bind_def to_number_def round2_def truthy_factors truthy_field_def object_prototype_keys_def)

lemma calculateImpact_unknown:
  assumes "c \<notin> set (map fst impactMultipliers)"
  shows "calculateImpact c v u =
     Inr \<lparr>co2_saved = round2 (num_mul v (lit (1 / 2))),
          water_conserved = round2 (num_mul v (lit (1 / 10)))\<rparr>"
proof -
  have "map_of impactMultipliers c = None" using assms by (simp add: map_of_eq_None_iff)
  then have "get_property impactMultipliers c = Inherited \<or> get_property impactMultipliers c = Undefined"
    by (simp add: get_property_def)
  then show ?thesis
    by (auto simp: calculateImpact_def truthy_object_def object_keys_def first_key_def
          to_property_key_def read_property_def bind_def round2_def object_prototype_keys_def)
qed

section \<open>Evaluations at concrete values\<close>

lemma transport_co2_product:
  "num_mul (Fin (5854679515581645 / 1125899906842624)) (Fin (3602879701896397 / 9007199254740992)) = Fin (1170935903116329 / 562949953421312)"
proof -
  have "num_mul (Fin (5854679515581645 / 1125899906842624)) (Fin (3602879701896397 / 9007199254740992)) = to_double False ((5854679515581645 / 1125899906842624) * (3602879701896397 / 9007199254740992))"
    by (rule num_mul_pos) simp_all
  also have "\<dots> = Fin (1170935903116329 / 562949953421312)"
    by (rule to_double_cert_pos [where e = 1 and n = 4683743612465316 and u = "1 / 2 ^ 51"]) simp_all
  finally show ?thesis .
qed

lemma transport_co2_scaled:
  "num_mul (Fin (1170935903116329 / 562949953421312)) (Fin 100) = Fin 208"
proof -
  have "num_mul (Fin (1170935903116329 / 562949953421312)) (Fin 100) = to_double False ((1170935903116329 / 562949953421312) * 100)"
    by (rule num_mul_pos) simp_all
  also have "\<dots> = Fin 208"
    by (rule to_double_cert_pos [where e = 7 and n = 7318349394477056 and u = "1 / 2 ^ 45"]) simp_all
  finally show ?thesis .
qed

lemma transport_water_product:
  "num_mul (Fin (5854679515581645 / 1125899906842624)) (Fin (3602879701896397 / 36028797018963968)) = Fin (1170935903116329 / 2251799813685248)"
proof -
  have "num_mul (Fin (5854679515581645 / 1125899906842624)) (Fin (3602879701896397 / 36028797018963968)) = to_double False ((5854679515581645 / 1125899906842624) * (3602879701896397 / 36028797018963968))"
    by (rule num_mul_pos) simp_all
  also have "\<dots> = Fin (1170935903116329 / 2251799813685248)"
    by (rule to_double_cert_pos [where e = "- 1" and n = 4683743612465316 and u = "1 / 2 ^ 53"]) simp_all
  finally show ?thesis .
qed

lemma transport_water_scaled:
  "num_mul (Fin (1170935903116329 / 2251799813685248)) (Fin 100) = Fin 52"
proof -
  have "num_mul (Fin (1170935903116329 / 2251799813685248)) (Fin 100) = to_double False ((1170935903116329 / 2251799813685248) * 100)"
    by (rule num_mul_pos) simp_all
  also have "\<dots> = Fin 52"
    by (rule to_double_cert_pos [where e = 5 and n = 7318349394477056 and u = "1 / 2 ^ 47"]) simp_all
  finally show ?thesis .
qed

lemma energy_co2_product:
  "num_mul (Fin (7 / 2)) (Fin (5 / 2)) = Fin (35 / 4)"
proof -
  have "num_mul (Fin (7 / 2)) (Fin (5 / 2)) = to_double False ((7 / 2) * (5 / 2))"
    by (rule num_mul_pos) simp_all
  also have "\<dots> = Fin (35 / 4)"
    by (rule to_double_cert_pos [where e = 3 and n = 4925812092436480 and u = "1 / 2 ^ 49"]) simp_all
  finally show ?thesis .
qed

lemma energy_co2_scaled:
  "num_mul (Fin (35 / 4)) (Fin 100) = Fin 875"
proof -
  have "num_mul (Fin (35 / 4)) (Fin 100) = to_double False ((35 / 4) * 100)"
    by (rule num_mul_pos) simp_all
  also have "\<dots> = Fin 875"
    by (rule to_double_cert_pos [where e = 9 and n = 7696581394432000 and u = "1 / 2 ^ 43"]) simp_all
  finally show ?thesis .
qed

lemma energy_water_product:
  "num_mul (Fin (7 / 2)) (Fin (1 / 2)) = Fin (7 / 4)"
proof -
  have "num_mul (Fin (7 / 2)) (Fin (1 / 2)) = to_double False ((7 / 2) * (1 / 2))"
    by (rule num_mul_pos) simp_all
  also have "\<dots> = Fin (7 / 4)"
    by (rule to_double_cert_pos [where e = 0 and n = 7881299347898368 and u = "1 / 2 ^ 52"]) simp_all
  finally show ?thesis .
qed

lemma energy_water_scaled:
  "num_mul (Fin (7 / 4)) (Fin 100) = Fin 175"
proof -
  have "num_mul (Fin (7 / 4)) (Fin 100) = to_double False ((7 / 4) * 100)"
    by (rule num_mul_pos) simp_all
  also have "\<dots> = Fin 175"
    by (rule to_double_cert_pos [where e = 7 and n = 6157265115545600 and u = "1 / 2 ^ 45"]) simp_all
  finally show ?thesis .
qed

lemma waste_co2_product:
  "num_mul (Fin (4728779608739021 / 2251799813685248)) (Fin (8106479329266893 / 4503599627370496)) = Fin (4255901647865119 / 1125899906842624)"
proof -
  have "num_mul (Fin (4728779608739021 / 2251799813685248)) (Fin (8106479329266893 / 4503599627370496)) = to_double False ((4728779608739021 / 2251799813685248) * (8106479329266893 / 4503599627370496))"
    by (rule num_mul_pos) simp_all
  also have "\<dots> = Fin (4255901647865119 / 1125899906842624)"
    by (rule to_double_cert_pos [where e = 1 and n = 8511803295730238 and u = "1 / 2 ^ 51"]) simp_all
  finally show ?thesis .
qed

lemma waste_co2_scaled:
  "num_mul (Fin (4255901647865119 / 1125899906842624)) (Fin 100) = Fin 378"
proof -
  have "num_mul (Fin (4255901647865119 / 1125899906842624)) (Fin 100) = to_double False ((4255901647865119 / 1125899906842624) * 100)"
    by (rule num_mul_pos) simp_all
  also have "\<dots> = Fin 378"
    by (rule to_double_cert_pos [where e = 8 and n = 6649846324789248 and u = "1 / 2 ^ 44"]) simp_all
  finally show ?thesis .
qed

lemma waste_water_product:
  "num_mul (Fin (4728779608739021 / 2251799813685248)) (Fin (5404319552844595 / 18014398509481984)) = Fin (5674535530486825 / 9007199254740992)"
proof -
  have "num_mul (Fin (4728779608739021 / 2251799813685248)) (Fin (5404319552844595 / 18014398509481984)) = to_double False ((4728779608739021 / 2251799813685248) * (5404319552844595 / 18014398509481984))"
    by (rule num_mul_pos) simp_all
  also have "\<dots> = Fin (5674535530486825 / 9007199254740992)"
    by (rule to_double_cert_pos [where e = "- 1" and n = 5674535530486825 and u = "1 / 2 ^ 53"]) simp_all
  finally show ?thesis .
qed

lemma waste_water_scaled:
  "num_mul (Fin (5674535530486825 / 9007199254740992)) (Fin 100) = Fin 63"
proof -
  have "num_mul (Fin (5674535530486825 / 9007199254740992)) (Fin 100) = to_double False ((5674535530486825 / 9007199254740992) * 100)"
    by (rule num_mul_pos) simp_all
  also have "\<dots> = Fin 63"
    by (rule to_double_cert_pos [where e = 5 and n = 8866461766385664 and u = "1 / 2 ^ 47"]) simp_all
  finally show ?thesis .
qed

lemma small_negative_co2_product:
  "num_mul (Fin (- (1 / 1024))) (Fin (3602879701896397 / 9007199254740992)) = Fin (- (3602879701896397 / 9223372036854775808))"
proof -
  have "num_mul (Fin (- (1 / 1024))) (Fin (3602879701896397 / 9007199254740992)) = to_double True ((1 / 1024) * (3602879701896397 / 9007199254740992))"
    by (simp add: num_mul_Fin)
  also have "\<dots> = Fin (- (3602879701896397 / 9223372036854775808))"
    by (rule to_double_cert_neg [where e = "- 12" and n = 7205759403792794 and u = "1 / 2 ^ 64"]) simp_all
  finally show ?thesis .
qed

lemma small_negative_co2_scaled:
  "num_mul (Fin (- (3602879701896397 / 9223372036854775808))) (Fin 100) = Fin (- (5 / 128))"
proof -
  have "num_mul (Fin (- (3602879701896397 / 9223372036854775808))) (Fin 100) = to_double True ((3602879701896397 / 9223372036854775808) * 100)"
    by (simp add: num_mul_Fin)
  also have "\<dots> = Fin (- (5 / 128))"
    by (rule to_double_cert_neg [where e = "- 5" and n = 5629499534213120 and u = "1 / 2 ^ 57"]) simp_all
  finally show ?thesis .
qed

lemma small_negative_water_product:
  "num_mul (Fin (- (1 / 1024))) (Fin (3602879701896397 / 36028797018963968)) = Fin (- (3602879701896397 / 36893488147419103232))"
proof -
  have "num_mul (Fin (- (1 / 1024))) (Fin (3602879701896397 / 36028797018963968)) = to_double True ((1 / 1024) * (3602879701896397 / 36028797018963968))"
    by (simp add: num_mul_Fin)
  also have "\<dots> = Fin (- (3602879701896397 / 36893488147419103232))"
    by (rule to_double_cert_neg [where e = "- 14" and n = 7205759403792794 and u = "1 / 2 ^ 66"]) simp_all
  finally show ?thesis .
qed

lemma small_negative_water_scaled:
  "num_mul (Fin (- (3602879701896397 / 36893488147419103232))) (Fin 100) = Fin (- (5 / 512))"
proof -
  have "num_mul (Fin (- (3602879701896397 / 36893488147419103232))) (Fin 100) = to_double True ((3602879701896397 / 36893488147419103232) * 100)"
    by (simp add: num_mul_Fin)
  also have "\<dots> = Fin (- (5 / 512))"
    by (rule to_double_cert_neg [where e = "- 7" and n = 5629499534213120 and u = "1 / 2 ^ 59"]) simp_all
  finally show ?thesis .
qed

lemma math_round_int: "0 \<le> n \<Longrightarrow> math_round (Fin (of_int n)) = Fin (of_int n)"
  by (simp add: signed_def floor_half)

lemma num_div_hundred: "0 < a \<Longrightarrow> num_div (Fin a) (lit 100) = lit (a / 100)"
  unfolding lit_hundred by (simp add: num_div_Fin lit_def)

lemma example_transport:
  "calculateImpact ''transport'' (lit (26 / 5)) u =
     Inr \<lparr>co2_saved = lit (208 / 100), water_conserved = lit (52 / 100)\<rparr>"
proof -
  have "round2 (num_mul (lit (26 / 5)) (lit (2 / 5))) = lit (208 / 100)"
    using math_round_int [of 208] num_div_hundred [of 208]
    by (simp add: round2_def lit_5_2 lit_two_fifths transport_co2_product)
       (simp add: lit_hundred transport_co2_scaled)
  moreover have "round2 (num_mul (lit (26 / 5)) (lit (1 / 10))) = lit (52 / 100)"
    using math_round_int [of 52] num_div_hundred [of 52]
    by (simp add: round2_def lit_5_2 lit_tenth transport_water_product)
       (simp add: lit_hundred transport_water_scaled)
  ultimately show ?thesis by (simp only: calculateImpact_transport)
qed


lemma example_energy:
  "calculateImpact ''energy'' (lit (7 / 2)) u =
     Inr \<lparr>co2_saved = lit (875 / 100), water_conserved = lit (175 / 100)\<rparr>"
proof -
  have "round2 (num_mul (lit (7 / 2)) (lit (5 / 2))) = lit (875 / 100)"
    using math_round_int [of 875] num_div_hundred [of 875]
    by (simp add: round2_def lit_3_5 lit_five_halves energy_co2_product)
       (simp add: lit_hundred energy_co2_scaled)
  moreover have "round2 (num_mul (lit (7 / 2)) (lit (1 / 2))) = lit (175 / 100)"
    using math_round_int [of 175] num_div_hundred [of 175]
    by (simp add: round2_def lit_3_5 lit_half energy_water_product)
       (simp add: lit_hundred energy_water_scaled)
  ultimately show ?thesis by (simp only: calculateImpact_energy)
qed

lemma example_waste:
  "calculateImpact ''waste'' (lit (21 / 10)) u =
     Inr \<lparr>co2_saved = lit (378 / 100), water_conserved = lit (63 / 100)\<rparr>"
proof -
  have "round2 (num_mul (lit (21 / 10)) (lit (9 / 5))) = lit (378 / 100)"
    using math_round_int [of 378] num_div_hundred [of 378]
    by (simp add: round2_def lit_2_1 lit_nine_fifths waste_co2_product)
       (simp add: lit_hundred waste_co2_scaled)
  moreover have "round2 (num_mul (lit (21 / 10)) (lit (3 / 10))) = lit (63 / 100)"
    using math_round_int [of 63] num_div_hundred [of 63]
    by (simp add: round2_def lit_2_1 lit_three_tenths waste_water_product)
       (simp add: lit_hundred waste_water_scaled)
  ultimately show ?thesis by (simp only: calculateImpact_waste)
qed

lemma small_negative_round2:
  "round2 (num_mul (Fin (- (1 / 1024))) (lit (2 / 5))) = NegZero"
  "round2 (num_mul (Fin (- (1 / 1024))) (lit (1 / 10))) = NegZero"
  by (simp_all add: round2_def lit_two_fifths lit_tenth lit_hundred small_negative_co2_product
        small_negative_co2_scaled small_negative_water_product small_negative_water_scaled
        signed_def num_div_special floor_eq_iff)

lemma calculateImpact_factors:
  "\<exists>bc bw. 0 < bw \<and> bw \<le> bc \<and>
     (\<forall>v u. calculateImpact c v u =
        Inr \<lparr>co2_saved = round2 (num_mul v (Fin bc)),
             water_conserved = round2 (num_mul v (Fin bw))\<rparr>)"
proof -
  consider "c = ''transport''" | "c = ''energy''" | "c = ''waste''"
    | "c \<notin> set (map fst impactMultipliers)"
    by (auto simp: impactMultipliers_def)
  then show ?thesis
  proof cases
    case 1
    show ?thesis unfolding 1 calculateImpact_transport lit_two_fifths lit_tenth
      by (intro exI conjI allI refl) simp_all
  next
    case 2
    show ?thesis unfolding 2 calculateImpact_energy lit_five_halves lit_half
      by (intro exI conjI allI refl) simp_all
  next
    case 3
    show ?thesis unfolding 3 calculateImpact_waste lit_nine_fifths lit_three_tenths
      by (intro exI conjI allI refl) simp_all
  next
    case 4
    show ?thesis unfolding calculateImpact_unknown [OF 4] lit_half lit_tenth
      by (intro exI conjI allI refl) simp_all
  qed
qed

section \<open>Negative values and converted values\<close>

text \<open>
  A negative product scaled by 100 and rounded by \<^verbatim>\<open>Math.round\<close> is the negative zero
  when the scaled product is at least \<open>-0.5\<close>, and an integer of at most \<open>-1\<close>
  otherwise, which the division by 100 leaves below zero.
\<close>

lemma string_zero: "json_to_number (JStr ''0'') = Some (Fin 0)"
  by (simp add: string_to_number_def digit_def lit_def signed_def)

lemma round_nearest_pos:
  assumes "1 / 128 \<le> a"
  shows "0 < round_nearest a"
proof -
  have "round_nearest (1 / 128) = of_int 4503599627370496 * (1 / 2 ^ 59)"
    by (rule round_nearest_cert [where e = "- 7"]) simp_all
  then have "round_nearest (1 / 128) = 1 / 128" by simp
  moreover have "round_nearest (1 / 128) \<le> round_nearest a"
    by (rule round_nearest_mono) (use assms in simp_all)
  ultimately show ?thesis by simp
qed

lemma round_scaled_negative:
  assumes "is_neg s"
  shows "if num_less s (Fin (- (1 / 2)))
         then num_less (num_div (math_round s) (Fin 100)) (Fin 0)
         else num_div (math_round s) (Fin 100) = NegZero"
proof (cases s)
  case (Fin q)
  with assms have q: "q < 0" by simp
  show ?thesis
  proof (cases "q < - (1 / 2)")
    case True
    define n where "n = \<lfloor>q + 1 / 2\<rfloor>"
    have "q + 1 / 2 < of_int 0" using True by simp
    then have "n < 0" unfolding n_def by (simp only: floor_less_iff)
    then have n: "n \<le> - 1" by simp
    then have abs: "\<bar>of_int n :: rat\<bar> = - of_int n" by simp
    have m: "math_round s = Fin (of_int n)"
      using Fin q n abs by (simp add: signed_def n_def [symmetric])
    have "(of_int n :: rat) \<le> of_int (- 1)" using n by (simp only: of_int_le_iff)
    then have p: "1 / 128 \<le> \<bar>of_int n :: rat\<bar> / 100" unfolding abs by simp
    have neg: "(of_int n :: rat) < 0" using n by simp
    have "num_div (Fin (of_int n)) (Fin 100) = to_double True (\<bar>of_int n\<bar> / 100)"
      using neg by (simp add: num_div_Fin del: of_int_less_iff)
    then show ?thesis using True Fin round_nearest_pos [OF p] m
      by (simp add: to_double_True num_less_def)
  next
    case False
    then have "0 \<le> q + 1 / 2" "q + 1 / 2 < 1" using q by simp_all
    then have "\<lfloor>q + 1 / 2\<rfloor> = 0" by (simp add: floor_eq_iff)
    then show ?thesis using False Fin q
      by (simp add: signed_def num_less_def num_div_special)
  qed
qed (use assms in \<open>simp_all add: num_less_def num_div_special\<close>)

lemma round2_negative:
  assumes "is_neg x"
  shows "if num_less (num_mul x (lit 100)) (Fin (- (1 / 2)))
         then num_less (round2 x) (Fin 0) else round2 x = NegZero"
  using round_scaled_negative [of "num_mul x (Fin 100)"] assms
  by (simp add: round2_def lit_hundred is_neg_mul)

lemma minus_one_co2_product:
  "num_mul (Fin (- 1)) (Fin (8106479329266893 / 4503599627370496)) = Fin (- (8106479329266893 / 4503599627370496))"
proof -
  have "num_mul (Fin (- 1)) (Fin (8106479329266893 / 4503599627370496)) = to_double True (1 * (8106479329266893 / 4503599627370496))"
    by (simp add: num_mul_Fin)
  also have "\<dots> = Fin (- (8106479329266893 / 4503599627370496))"
    by (rule to_double_cert_neg [where e = 0 and n = 8106479329266893 and u = "1 / 2 ^ 52"]) simp_all
  finally show ?thesis .
qed

lemma minus_one_co2_scaled:
  "num_mul (Fin (- (8106479329266893 / 4503599627370496))) (Fin 100) = Fin (- 180)"
proof -
  have "num_mul (Fin (- (8106479329266893 / 4503599627370496))) (Fin 100) = to_double True ((8106479329266893 / 4503599627370496) * 100)"
    by (simp add: num_mul_Fin)
  also have "\<dots> = Fin (- 180)"
    by (rule to_double_cert_neg [where e = 7 and n = 6333186975989760 and u = "1 / 2 ^ 45"]) simp_all
  finally show ?thesis .
qed

lemma minus_one_water_product:
  "num_mul (Fin (- 1)) (Fin (5404319552844595 / 18014398509481984)) = Fin (- (5404319552844595 / 18014398509481984))"
proof -
  have "num_mul (Fin (- 1)) (Fin (5404319552844595 / 18014398509481984)) = to_double True (1 * (5404319552844595 / 18014398509481984))"
    by (simp add: num_mul_Fin)
  also have "\<dots> = Fin (- (5404319552844595 / 18014398509481984))"
    by (rule to_double_cert_neg [where e = "- 2" and n = 5404319552844595 and u = "1 / 2 ^ 54"]) simp_all
  finally show ?thesis .
qed

lemma minus_one_water_scaled:
  "num_mul (Fin (- (5404319552844595 / 18014398509481984))) (Fin 100) = Fin (- 30)"
proof -
  have "num_mul (Fin (- (5404319552844595 / 18014398509481984))) (Fin 100) = to_double True ((5404319552844595 / 18014398509481984) * 100)"
    by (simp add: num_mul_Fin)
  also have "\<dots> = Fin (- 30)"
    by (rule to_double_cert_neg [where e = 4 and n = 8444249301319680 and u = "1 / 2 ^ 48"]) simp_all
  finally show ?thesis .
qed

lemma minus_one_scaled:
  "num_less (num_mul (num_mul (Fin (- 1)) (lit (9 / 5))) (lit 100)) (Fin (- (1 / 2)))"
  "num_less (num_mul (num_mul (Fin (- 1)) (lit (3 / 10))) (lit 100)) (Fin (- (1 / 2)))"
  by (simp_all add: lit_nine_fifths lit_three_tenths lit_hundred minus_one_co2_product
        minus_one_co2_scaled minus_one_water_product minus_one_water_scaled num_less_def)

lemma calculateImpact_positive_zero:
  "calculateImpact c (Fin 0) u = Inr \<lparr>co2_saved = Fin 0, water_conserved = Fin 0\<rparr>"
proof -
  obtain bc bw where "0 < bw" "bw \<le> bc"
    and eq: "\<And>v u. calculateImpact c v u =
        Inr \<lparr>co2_saved = round2 (num_mul v (Fin bc)),
             water_conserved = round2 (num_mul v (Fin bw))\<rparr>"
    using calculateImpact_factors [of c] by blast
  then have "0 < bc" by simp
  then show ?thesis using \<open>0 < bw\<close> by (simp add: eq round2_zero)
qed

lemma invoke_string_zero:
  "invoke (JStr c, JStr ''0'', JStr u) =
     Some (Inr \<lparr>co2_saved = Fin 0, water_conserved = Fin 0\<rparr>)"
  using string_zero by (simp add: calculateImpact_positive_zero)

section \<open>The endpoint's calls of the calculator\<close>

lemma post_activities_calls:
  assumes "(c, v, u) \<in> set (fst (post_activities env req))"
  shows "truthy c \<and> truthy v \<and> truthy u"
  using assms
  by (auto simp: post_activities_def create_activity_def
        split: middleware.splits option.splits if_splits)

section \<open>The claims of the specification\<close>

text \<open>
  Claim C1. The keys of the table are transport, energy and waste, with biking,
  solar and recycling as their first declared subtypes. For each of these
  categories and every number \<open>v\<close>, \<^verbatim>\<open>calculateImpact\<close> returns
  \<open>co2_saved = round2 (v * f_co2)\<close> and \<open>water_conserved = round2 (v * f_water)\<close> with
  the factors of that first subtype: 0.4 and 0.1, 2.5 and 0.5, 1.8 and 0.3.
\<close>

theorem calculateImpact_known_category:
  "map (\<lambda>(c, subtypes). (c, hd subtypes)) impactMultipliers =
     [(''transport'', (''biking'', [(''co2_per_mile'', lit (2 / 5)), (''water_per_mile'', lit (1 / 10))])),
      (''energy'', (''solar'', [(''co2_per_kwh'', lit (5 / 2)), (''water_per_kwh'', lit (1 / 2))])),
      (''waste'', (''recycling'', [(''co2_per_kg'', lit (9 / 5)), (''water_per_kg'', lit (3 / 10))]))]
   \<and> calculateImpact ''transport'' v u =
       Inr \<lparr>co2_saved = round2 (num_mul v (lit (2 / 5))),
            water_conserved = round2 (num_mul v (lit (1 / 10)))\<rparr>
   \<and> calculateImpact ''energy'' v u =
       Inr \<lparr>co2_saved = round2 (num_mul v (lit (5 / 2))),
            water_conserved = round2 (num_mul v (lit (1 / 2)))\<rparr>
   \<and> calculateImpact ''waste'' v u =
       Inr \<lparr>co2_saved = round2 (num_mul v (lit (9 / 5))),
            water_conserved = round2 (num_mul v (lit (3 / 10)))\<rparr>"
  by (simp add: calculateImpact_transport calculateImpact_energy calculateImpact_waste)
     (simp add: impactMultipliers_def)

text \<open>
  Claim C2. For a category that is not a key of the table, and every number \<open>v\<close>,
  \<^verbatim>\<open>calculateImpact\<close> raises no error and returns
  \<open>co2_saved = round2 (v * 0.5)\<close> and \<open>water_conserved = round2 (v * 0.1)\<close>. This holds
  as well for the names that every object inherits, such as \<^verbatim>\<open>toString\<close>.
\<close>

theorem calculateImpact_unknown_category:
  assumes "c \<notin> set (map fst impactMultipliers)"
  shows "calculateImpact c v u =
     Inr \<lparr>co2_saved = round2 (num_mul v (lit (1 / 2))),
          water_conserved = round2 (num_mul v (lit (1 / 10)))\<rparr>"
  using assms by (rule calculateImpact_unknown)

text \<open>The category \<^verbatim>\<open>toString\<close> is not a key of the table and gets the default factors.\<close>

theorem calculateImpact_unknown_category_witness:
  "''toString'' \<notin> set (map fst impactMultipliers) \<and>
   calculateImpact ''toString'' (Fin 3) ''kg'' =
     Inr \<lparr>co2_saved = round2 (num_mul (Fin 3) (lit (1 / 2))),
          water_conserved = round2 (num_mul (Fin 3) (lit (1 / 10)))\<rparr>"
proof -
  have h: "''toString'' \<notin> set (map fst impactMultipliers)" by (simp add: impactMultipliers_def)
  show ?thesis using h calculateImpact_unknown_category [OF h, of "Fin 3" "''kg''"] by simp
qed

text \<open>
  Claim C3. The three worked examples, in binary64 arithmetic and for any unit:
  transport with 5.2 gives 2.08 and 0.52, energy with 3.5 gives 8.75 and 1.75, waste
  with 2.1 gives 3.78 and 0.63. Each decimal stands for the number its literal
  denotes (\<open>lit (26 / 5)\<close> is \<^verbatim>\<open>5.2\<close>).
\<close>

theorem calculateImpact_worked_examples:
  "calculateImpact ''transport'' (lit (26 / 5)) u =
     Inr \<lparr>co2_saved = lit (208 / 100), water_conserved = lit (52 / 100)\<rparr>
   \<and> calculateImpact ''energy'' (lit (7 / 2)) u =
     Inr \<lparr>co2_saved = lit (875 / 100), water_conserved = lit (175 / 100)\<rparr>
   \<and> calculateImpact ''waste'' (lit (21 / 10)) u =
     Inr \<lparr>co2_saved = lit (378 / 100), water_conserved = lit (63 / 100)\<rparr>"
  using example_transport example_energy example_waste by (intro conjI)

text \<open>
  Claim C4. For every category and unit, the value 0 gives the result
  \<open>{co2_saved: 0, water_conserved: 0}\<close>. The negative zero, which \<^verbatim>\<open>===\<close> does not tell
  from 0, gives negative zeros.
\<close>

theorem calculateImpact_zero:
  "calculateImpact c (Fin 0) u = Inr \<lparr>co2_saved = Fin 0, water_conserved = Fin 0\<rparr>
   \<and> calculateImpact c NegZero u = Inr \<lparr>co2_saved = NegZero, water_conserved = NegZero\<rparr>
   \<and> num_eq NegZero (Fin 0)"
proof -
  obtain bc bw where "0 < bw" "bw \<le> bc"
    and eq: "\<And>v u. calculateImpact c v u =
        Inr \<lparr>co2_saved = round2 (num_mul v (Fin bc)),
             water_conserved = round2 (num_mul v (Fin bw))\<rparr>"
    using calculateImpact_factors [of c] by blast
  then have "0 < bc" by simp
  then show ?thesis using \<open>0 < bw\<close> by (simp add: eq round2_zero num_eq_def)
qed

text \<open>
  Claim C5. For every category and every value with \<^verbatim>\<open>value >= 0\<close>, both fields of the
  result are non-negative: \<^verbatim>\<open>co2_saved >= 0\<close> and \<^verbatim>\<open>water_conserved >= 0\<close>.
\<close>

theorem calculateImpact_nonnegative:
  assumes "num_le (Fin 0) v"
  shows "\<exists>r. calculateImpact c v u = Inr r \<and>
           num_le (Fin 0) (co2_saved r) \<and> num_le (Fin 0) (water_conserved r)"
proof -
  obtain bc bw where b: "0 < bw" "bw \<le> bc"
    and eq: "\<And>v u. calculateImpact c v u =
        Inr \<lparr>co2_saved = round2 (num_mul v (Fin bc)),
             water_conserved = round2 (num_mul v (Fin bw))\<rparr>"
    using calculateImpact_factors [of c] by blast
  have bc: "0 < bc" using b by simp
  have 1: "num_le (Fin 0) (num_mul v (Fin bc))"
    using mul_factor_mono [OF bc order_refl assms] by simp
  have 2: "num_le (Fin 0) (num_mul v (Fin bw))"
    using mul_factor_mono [OF b(1) order_refl assms] by simp
  have "num_le (Fin 0) (round2 (num_mul v (Fin bc)))"
    using round2_mono [OF 1 num_le_refl_nonneg [OF 1]] by simp
  moreover have "num_le (Fin 0) (round2 (num_mul v (Fin bw)))"
    using round2_mono [OF 2 num_le_refl_nonneg [OF 2]] by simp
  ultimately show ?thesis by (simp add: eq)
qed

text \<open>The value 3 is non-negative, and so is its impact in the category transport.\<close>

theorem calculateImpact_nonnegative_witness:
  "num_le (Fin 0) (Fin 3) \<and>
   (\<exists>r. calculateImpact ''transport'' (Fin 3) ''miles'' = Inr r \<and>
      num_le (Fin 0) (co2_saved r) \<and> num_le (Fin 0) (water_conserved r))"
proof -
  have h: "num_le (Fin 0) (Fin 3)" by (simp add: num_le_def)
  show ?thesis using h calculateImpact_nonnegative [OF h, of "''transport''" "''miles''"] by simp
qed

text \<open>
  Claim C6. The unit has no influence on the result: two calls that differ in the
  unit only return the same.
\<close>

theorem calculateImpact_ignores_unit:
  "calculateImpact c v u1 = calculateImpact c v u2"
  by (simp add: calculateImpact_def)

text \<open>
  Claim C7. \<^verbatim>\<open>calculateImpact\<close> is total: for every category string, every number
  (NaN and the infinities included) and every unit it raises no error and returns
  a result.
\<close>

theorem calculateImpact_total:
  "\<exists>r. calculateImpact c v u = Inr r"
  using calculateImpact_factors [of c] by auto

text \<open>
  Claim C8, as amended. For every category and every value with \<^verbatim>\<open>value < 0\<close> the
  input is not rejected: the result is computed by the formula that serves every
  value, \<open>co2_saved = round2 (value * f_co2)\<close> and
  \<open>water_conserved = round2 (value * f_water)\<close>, with the factors of the category
  (those of its first subtype, or 0.5 and 0.1). A field is negative when its scaled
  product \<^verbatim>\<open>value * factor * 100\<close> is below \<open>-0.5\<close>, and is the negative zero
  otherwise.
\<close>

theorem calculateImpact_negative_value:
  assumes "num_less v (Fin 0)"
    and "fc = (if c = ''transport'' then lit (2 / 5) else if c = ''energy'' then lit (5 / 2)
               else if c = ''waste'' then lit (9 / 5) else lit (1 / 2))"
    and "fw = (if c = ''transport'' then lit (1 / 10) else if c = ''energy'' then lit (1 / 2)
               else if c = ''waste'' then lit (3 / 10) else lit (1 / 10))"
  shows "\<exists>r. calculateImpact c v u = Inr r \<and>
           co2_saved r = round2 (num_mul v fc) \<and>
           water_conserved r = round2 (num_mul v fw) \<and>
           (if num_less (num_mul (num_mul v fc) (lit 100)) (Fin (- (1 / 2)))
            then num_less (co2_saved r) (Fin 0) else co2_saved r = NegZero) \<and>
           (if num_less (num_mul (num_mul v fw) (lit 100)) (Fin (- (1 / 2)))
            then num_less (water_conserved r) (Fin 0) else water_conserved r = NegZero)"
proof -
  have v: "is_neg v" using assms(1) by (rule less_zero_is_neg)
  have neg: "is_neg (num_mul v fc)" "is_neg (num_mul v fw)"
    unfolding assms(2,3) using v
    by (auto simp: lit_two_fifths lit_tenth lit_five_halves lit_half lit_nine_fifths
          lit_three_tenths is_neg_mul)
  have eq: "calculateImpact c v u =
      Inr \<lparr>co2_saved = round2 (num_mul v fc), water_conserved = round2 (num_mul v fw)\<rparr>"
  proof -
    consider "c = ''transport''" | "c = ''energy''" | "c = ''waste''"
      | "c \<noteq> ''transport''" "c \<noteq> ''energy''" "c \<noteq> ''waste''"
      by blast
    then show ?thesis
    proof cases
      case 4
      then have "c \<notin> set (map fst impactMultipliers)" by (simp add: impactMultipliers_def)
      then show ?thesis using 4 by (simp add: calculateImpact_unknown assms(2,3))
    qed (simp_all add: assms(2,3) calculateImpact_transport calculateImpact_energy
           calculateImpact_waste)
  qed
  show ?thesis
    using round2_negative [OF neg(1)] round2_negative [OF neg(2)] by (simp add: eq)
qed

text \<open>
  The value -1 in the category waste: both scaled products, -180 and -30, are below
  \<open>-0.5\<close>, and both fields are negative.
\<close>

theorem calculateImpact_negative_value_witness:
  "num_less (Fin (- 1)) (Fin 0) \<and>
   (\<exists>r. calculateImpact ''waste'' (Fin (- 1)) ''kg'' = Inr r \<and>
      co2_saved r = round2 (num_mul (Fin (- 1)) (lit (9 / 5))) \<and>
      water_conserved r = round2 (num_mul (Fin (- 1)) (lit (3 / 10))) \<and>
      num_less (co2_saved r) (Fin 0) \<and> num_less (water_conserved r) (Fin 0))"
proof -
  have h: "num_less (Fin (- 1)) (Fin 0)" by (simp add: num_less_def)
  have fc: "lit (9 / 5) = (if ''waste'' = ''transport'' then lit (2 / 5)
      else if ''waste'' = ''energy'' then lit (5 / 2)
      else if ''waste'' = ''waste'' then lit (9 / 5) else lit (1 / 2))" by simp
  have fw: "lit (3 / 10) = (if ''waste'' = ''transport'' then lit (1 / 10)
      else if ''waste'' = ''energy'' then lit (1 / 2)
      else if ''waste'' = ''waste'' then lit (3 / 10) else lit (1 / 10))" by simp
  show ?thesis
    using h calculateImpact_negative_value [OF h fc fw, of "''kg''"] minus_one_scaled
    by auto
qed

text \<open>
  The negative value \<open>-1/1024\<close> (\<^verbatim>\<open>-0.0009765625\<close>) in the category transport:
  \<^verbatim>\<open>value * 0.4 * 100\<close> is \<^verbatim>\<open>-0.0390625\<close> and \<^verbatim>\<open>value * 0.1 * 100\<close> is about
  \<^verbatim>\<open>-0.0098\<close>, \<^verbatim>\<open>Math.round\<close> makes both the negative zero, and the result
  \<open>{co2_saved: -0, water_conserved: -0}\<close> is not negative.
\<close>

theorem negative_value_counterexample:
  "num_less (Fin (- (1 / 1024))) (Fin 0) \<and>
   calculateImpact ''transport'' (Fin (- (1 / 1024))) ''miles'' =
     Inr \<lparr>co2_saved = NegZero, water_conserved = NegZero\<rparr> \<and>
   \<not> num_less NegZero (Fin 0)"
  by (simp add: calculateImpact_transport small_negative_round2 num_less_def)

text \<open>
  Claim C9. For every category and every value with \<^verbatim>\<open>value >= 0\<close>, the result has
  \<^verbatim>\<open>water_conserved <= co2_saved\<close>: each water factor is at most the CO2 factor beside
  it, and the multiplication, \<^verbatim>\<open>Math.round\<close> and the division are monotone.
\<close>

theorem water_at_most_co2:
  assumes "num_le (Fin 0) v"
  shows "\<exists>r. calculateImpact c v u = Inr r \<and> num_le (water_conserved r) (co2_saved r)"
proof -
  obtain bc bw where b: "0 < bw" "bw \<le> bc"
    and eq: "\<And>v u. calculateImpact c v u =
        Inr \<lparr>co2_saved = round2 (num_mul v (Fin bc)),
             water_conserved = round2 (num_mul v (Fin bw))\<rparr>"
    using calculateImpact_factors [of c] by blast
  note m = mul_factor_mono [OF b assms]
  have "num_le (round2 (num_mul v (Fin bw))) (round2 (num_mul v (Fin bc)))"
    using round2_mono [OF conjunct1 [OF m] conjunct2 [OF m]] by simp
  then show ?thesis by (simp add: eq)
qed

text \<open>The value 3 is non-negative, and in the category energy its water is at most its CO2.\<close>

theorem water_at_most_co2_witness:
  "num_le (Fin 0) (Fin 3) \<and>
   (\<exists>r. calculateImpact ''energy'' (Fin 3) ''kwh'' = Inr r \<and>
      num_le (water_conserved r) (co2_saved r))"
proof -
  have h: "num_le (Fin 0) (Fin 3)" by (simp add: num_le_def)
  show ?thesis using h water_at_most_co2 [OF h, of "''energy''" "''kwh''"] by simp
qed

text \<open>
  Claim C10, as amended. A request to \<^verbatim>\<open>POST /api/activities\<close> that has passed the
  middleware \<^verbatim>\<open>authenticateToken\<close> and whose body has the number 0 (or the negative
  zero) as its value is rejected with the status 400 and the error code
  \<^verbatim>\<open>MISSING_REQUIRED_FIELDS\<close>, whatever its category and unit are, and without a call
  of \<^verbatim>\<open>calculateImpact\<close>. Whatever the request is, the value of every call of
  \<^verbatim>\<open>calculateImpact\<close> made by the endpoint is truthy, so it is never the number 0.
  A truthy value that the multiplication converts to 0 does pass: with the string
  \<^verbatim>\<open>"0"\<close> as value, and a non-empty string as category and as unit, the endpoint
  answers 201 and calls \<^verbatim>\<open>calculateImpact\<close> with it, which returns \<open>{0, 0}\<close>.
\<close>

theorem zero_value_rejected:
  assumes "authenticateToken env req = Next user"
    and "body req = Some b" and "value b = JNum z" and "is_zero z"
  shows "post_activities env req =
           ([], Failed 400 \<lparr>message = ''Category, value, and unit are required'',
                             error_code = Some ''MISSING_REQUIRED_FIELDS''\<rparr>)
         \<and> (\<forall>(c, v, u) \<in> set (fst (post_activities env' req')).
               truthy v \<and> v \<noteq> JNum (Fin 0) \<and> v \<noteq> JNum NegZero)
         \<and> (authenticateToken env2 req2 = Next user2 \<and> body req2 = Some b2 \<and>
             category b2 = JStr c2 \<and> c2 \<noteq> [] \<and> value b2 = JStr ''0'' \<and>
             unit b2 = JStr u2 \<and> u2 \<noteq> [] \<longrightarrow>
               post_activities env2 req2 =
                 ([(JStr c2, JStr ''0'', JStr u2)], Created (JStr c2) (JStr ''0'') (JStr u2)) \<and>
               json_to_number (JStr ''0'') = Some (Fin 0) \<and>
               invoke (JStr c2, JStr ''0'', JStr u2) =
                 Some (Inr \<lparr>co2_saved = Fin 0, water_conserved = Fin 0\<rparr>))"
proof -
  have "truthy v \<and> v \<noteq> JNum (Fin 0) \<and> v \<noteq> JNum NegZero"
    if "(c, v, u) \<in> set (fst (post_activities env' req'))" for c v u
    using post_activities_calls [OF that] by (auto simp: truthy_number_def)
  then have calls: "\<forall>(c, v, u) \<in> set (fst (post_activities env' req')).
               truthy v \<and> v \<noteq> JNum (Fin 0) \<and> v \<noteq> JNum NegZero"
    by auto
  have "\<not> truthy (value b)" using assms(3,4) by (simp add: truthy_number_def)
  then have rejected: "post_activities env req =
           ([], Failed 400 \<lparr>message = ''Category, value, and unit are required'',
                             error_code = Some ''MISSING_REQUIRED_FIELDS''\<rparr>)"
    using assms(1,2)
    by (simp add: post_activities_def create_activity_def createErrorResponse_def)
  have passed: "post_activities env2 req2 =
      ([(JStr c2, JStr ''0'', JStr u2)], Created (JStr c2) (JStr ''0'') (JStr u2))"
    if "authenticateToken env2 req2 = Next user2" "body req2 = Some b2"
      "category b2 = JStr c2" "c2 \<noteq> []" "value b2 = JStr ''0''" "unit b2 = JStr u2" "u2 \<noteq> []"
    using that by (simp add: post_activities_def create_activity_def)
  show ?thesis using calls rejected passed string_zero invoke_string_zero by blast
qed

text \<open>
  A request with a valid token of an existing user: with the value 0 it is rejected
  with 400, with the value 5 it makes one call of \<^verbatim>\<open>calculateImpact\<close>, and with the
  string \<^verbatim>\<open>"0"\<close> as value it makes one call, whose result is \<open>{0, 0}\<close>.
\<close>

theorem zero_value_rejected_witness:
  "authenticateToken
     \<lparr>valid_tokens = [(''t1'', ''u1'')], users = [''u1''], query_throws = False\<rparr>
     \<lparr>authorization = Some ''Bearer t1'',
      body = Some \<lparr>category = JStr ''transport'', value = JNum (Fin 0), unit = JStr ''miles'',
                   timestamp = JUndefined, notes = JUndefined\<rparr>\<rparr> = Next ''u1''
   \<and> is_zero (Fin 0)
   \<and> post_activities
     \<lparr>valid_tokens = [(''t1'', ''u1'')], users = [''u1''], query_throws = False\<rparr>
     \<lparr>authorization = Some ''Bearer t1'',
      body = Some \<lparr>category = JStr ''transport'', value = JNum (Fin 0), unit = JStr ''miles'',
                   timestamp = JUndefined, notes = JUndefined\<rparr>\<rparr> =
       ([], Failed 400 \<lparr>message = ''Category, value, and unit are required'',
                         error_code = Some ''MISSING_REQUIRED_FIELDS''\<rparr>)
   \<and> fst (post_activities
     \<lparr>valid_tokens = [(''t1'', ''u1'')], users = [''u1''], query_throws = False\<rparr>
     \<lparr>authorization = Some ''Bearer t1'',
      body = Some \<lparr>category = JStr ''transport'', value = JNum (Fin 5), unit = JStr ''miles'',
                   timestamp = JUndefined, notes = JUndefined\<rparr>\<rparr>) =
       [(JStr ''transport'', JNum (Fin 5), JStr ''miles'')]
   \<and> post_activities
     \<lparr>valid_tokens = [(''t1'', ''u1'')], users = [''u1''], query_throws = False\<rparr>
     \<lparr>authorization = Some ''Bearer t1'',
      body = Some \<lparr>category = JStr ''transport'', value = JStr ''0'', unit = JStr ''miles'',
                   timestamp = JUndefined, notes = JUndefined\<rparr>\<rparr> =
       ([(JStr ''transport'', JStr ''0'', JStr ''miles'')],
        Created (JStr ''transport'') (JStr ''0'') (JStr ''miles''))
   \<and> invoke (JStr ''transport'', JStr ''0'', JStr ''miles'') =
       Some (Inr \<lparr>co2_saved = Fin 0, water_conserved = Fin 0\<rparr>)"
proof -
  let ?env = "\<lparr>valid_tokens = [(''t1'', ''u1'')], users = [''u1''], query_throws = False\<rparr>"
  let ?b = "\<lparr>category = JStr ''transport'', value = JNum (Fin 0), unit = JStr ''miles'',
             timestamp = JUndefined, notes = JUndefined\<rparr>"
  let ?req = "\<lparr>authorization = Some ''Bearer t1'', body = Some ?b\<rparr>"
  let ?b2 = "\<lparr>category = JStr ''transport'', value = JStr ''0'', unit = JStr ''miles'',
             timestamp = JUndefined, notes = JUndefined\<rparr>"
  let ?req2 = "\<lparr>authorization = Some ''Bearer t1'', body = Some ?b2\<rparr>"
  let ?req5 = "\<lparr>authorization = Some ''Bearer t1'',
      body = Some \<lparr>category = JStr ''transport'', value = JNum (Fin 5), unit = JStr ''miles'',
                   timestamp = JUndefined, notes = JUndefined\<rparr>\<rparr>"
  have a: "authenticateToken ?env ?req = Next ''u1''"
    by (simp add: authenticateToken_def element_def)
  have a2: "authenticateToken ?env ?req2 = Next ''u1''"
    by (simp add: authenticateToken_def element_def)
  have b: "body ?req = Some ?b" by simp
  have v: "value ?b = JNum (Fin 0)" by simp
  have z: "is_zero (Fin 0)" by simp
  have five: "fst (post_activities ?env ?req5) = [(JStr ''transport'', JNum (Fin 5), JStr ''miles'')]"
    by (simp add: post_activities_def authenticateToken_def element_def create_activity_def
          truthy_number_def)
  note t = zero_value_rejected [OF a b v z, of ?env ?req5 ?env ?req2 "''u1''" ?b2
      "''transport''" "''miles''"]
  show ?thesis using a z five t a2 by (simp del: invoke.simps json_to_number.simps)
qed

text \<open>
  A request without an \<^verbatim>\<open>authorization\<close> header and with the value 0 in its body is
  answered by the middleware, with the status 401 and the error code
  \<^verbatim>\<open>AUTH_TOKEN_MISSING\<close>, not with 400 and \<^verbatim>\<open>MISSING_REQUIRED_FIELDS\<close>. And an
  authenticated request with the string \<^verbatim>\<open>"0"\<close> as value is answered with 201:
  \<^verbatim>\<open>calculateImpact\<close> is called with a value that it converts to 0.
\<close>

theorem unauthenticated_zero_value_counterexample:
  "post_activities
     \<lparr>valid_tokens = [(''t1'', ''u1'')], users = [''u1''], query_throws = False\<rparr>
     \<lparr>authorization = None,
      body = Some \<lparr>category = JStr ''transport'', value = JNum (Fin 0), unit = JStr ''miles'',
                   timestamp = JUndefined, notes = JUndefined\<rparr>\<rparr> =
       ([], Failed 401 \<lparr>message = ''Access token required'',
                         error_code = Some ''AUTH_TOKEN_MISSING''\<rparr>)
   \<and> snd (post_activities
     \<lparr>valid_tokens = [(''t1'', ''u1'')], users = [''u1''], query_throws = False\<rparr>
     \<lparr>authorization = None,
      body = Some \<lparr>category = JStr ''transport'', value = JNum (Fin 0), unit = JStr ''miles'',
                   timestamp = JUndefined, notes = JUndefined\<rparr>\<rparr>) \<noteq>
       Failed 400 \<lparr>message = ''Category, value, and unit are required'',
                    error_code = Some ''MISSING_REQUIRED_FIELDS''\<rparr>
   \<and> post_activities
     \<lparr>valid_tokens = [(''t1'', ''u1'')], users = [''u1''], query_throws = False\<rparr>
     \<lparr>authorization = Some ''Bearer t1'',
      body = Some \<lparr>category = JStr ''transport'', value = JStr ''0'', unit = JStr ''miles'',
                   timestamp = JUndefined, notes = JUndefined\<rparr>\<rparr> =
       ([(JStr ''transport'', JStr ''0'', JStr ''miles'')],
        Created (JStr ''transport'') (JStr ''0'') (JStr ''miles''))
   \<and> json_to_number (JStr ''0'') = Some (Fin 0)
   \<and> invoke (JStr ''transport'', JStr ''0'', JStr ''miles'') =
       Some (Inr \<lparr>co2_saved = Fin 0, water_conserved = Fin 0\<rparr>)"
  using string_zero invoke_string_zero [of "''transport''" "''miles''"]
  by (simp add: post_activities_def authenticateToken_def createErrorResponse_def
        create_activity_def element_def)

end
